theory Spec2Isabelle
  imports Complex_Main "HOL-Library.Multiset"
begin

section \<open>Numbers: float64 values with exact arithmetic\<close>

text \<open>
  The program computes on pandas Series and numpy arrays of float64. A value is a finite
  number, one of the two infinities, or NaN (pandas' marker of a missing entry). Finite
  arithmetic is exact here (no rounding, no overflow, no signed zero); the special values
  follow IEEE 754 as numpy applies it: a division by zero yields an infinity or NaN and
  raises nothing, every operation on NaN yields NaN, every comparison with NaN is false.
\<close>

datatype npfloat = Fin real | PInf | NInf | NaN

fun isna :: "npfloat \<Rightarrow> bool" where
  "isna NaN = True"
| "isna _ = False"

fun np_neg :: "npfloat \<Rightarrow> npfloat" where
  "np_neg (Fin a) = Fin (- a)"
| "np_neg PInf = NInf"
| "np_neg NInf = PInf"
| "np_neg NaN = NaN"

fun np_add :: "npfloat \<Rightarrow> npfloat \<Rightarrow> npfloat" where
  "np_add NaN _ = NaN"
| "np_add _ NaN = NaN"
| "np_add (Fin a) (Fin b) = Fin (a + b)"
| "np_add PInf NInf = NaN"
| "np_add NInf PInf = NaN"
| "np_add PInf _ = PInf"
| "np_add _ PInf = PInf"
| "np_add NInf _ = NInf"
| "np_add _ NInf = NInf"

definition np_sub :: "npfloat \<Rightarrow> npfloat \<Rightarrow> npfloat" where
  "np_sub a b = np_add a (np_neg b)"

text \<open>The infinity with the sign of a non-zero real.\<close>

definition inf_of_sign :: "real \<Rightarrow> npfloat" where
  "inf_of_sign s = (if 0 < s then PInf else NInf)"

fun np_mul :: "npfloat \<Rightarrow> npfloat \<Rightarrow> npfloat" where
  "np_mul NaN _ = NaN"
| "np_mul _ NaN = NaN"
| "np_mul (Fin a) (Fin b) = Fin (a * b)"
| "np_mul (Fin a) PInf = (if a = 0 then NaN else inf_of_sign a)"
| "np_mul (Fin a) NInf = (if a = 0 then NaN else inf_of_sign (- a))"
| "np_mul PInf (Fin b) = (if b = 0 then NaN else inf_of_sign b)"
| "np_mul NInf (Fin b) = (if b = 0 then NaN else inf_of_sign (- b))"
| "np_mul PInf PInf = PInf"
| "np_mul NInf NInf = PInf"
| "np_mul PInf NInf = NInf"
| "np_mul NInf PInf = NInf"

fun np_div :: "npfloat \<Rightarrow> npfloat \<Rightarrow> npfloat" where
  "np_div NaN _ = NaN"
| "np_div _ NaN = NaN"
| "np_div (Fin a) (Fin b) =
     (if b = 0 then (if a = 0 then NaN else inf_of_sign a) else Fin (a / b))"
| "np_div (Fin a) _ = Fin 0"
| "np_div PInf (Fin b) = (if 0 \<le> b then PInf else NInf)"
| "np_div NInf (Fin b) = (if 0 \<le> b then NInf else PInf)"
| "np_div _ _ = NaN"

fun np_less :: "npfloat \<Rightarrow> npfloat \<Rightarrow> bool" where
  "np_less NaN _ = False"
| "np_less _ NaN = False"
| "np_less (Fin a) (Fin b) = (a < b)"
| "np_less _ NInf = False"
| "np_less NInf _ = True"
| "np_less PInf _ = False"
| "np_less _ PInf = True"

fun np_le :: "npfloat \<Rightarrow> npfloat \<Rightarrow> bool" where
  "np_le NaN _ = False"
| "np_le _ NaN = False"
| "np_le a b = (a = b \<or> np_less a b)"

definition np_max :: "npfloat \<Rightarrow> npfloat \<Rightarrow> npfloat" where
  "np_max a b = (if np_less a b then b else a)"

definition np_min :: "npfloat \<Rightarrow> npfloat \<Rightarrow> npfloat" where
  "np_min a b = (if np_less b a then b else a)"

fun np_abs :: "npfloat \<Rightarrow> npfloat" where
  "np_abs (Fin a) = Fin \<bar>a\<bar>"
| "np_abs NaN = NaN"
| "np_abs _ = PInf"

fun np_sqrt :: "npfloat \<Rightarrow> npfloat" where
  "np_sqrt (Fin a) = (if a < 0 then NaN else Fin (sqrt a))"
| "np_sqrt PInf = PInf"
| "np_sqrt _ = NaN"

text \<open>\<^verbatim>\<open>np.sqrt(252)\<close>, the annualisation factor.\<close>

definition sqrt252 :: npfloat where
  "sqrt252 = Fin (sqrt 252)"

section \<open>Series: labelled float columns\<close>

text \<open>
  A pandas Series is a list of (index label, value) pairs. The frames of this program carry
  the default integer index \<^verbatim>\<open>0 .. n-1\<close> (\<^verbatim>\<open>reset_index(drop=True)\<close>), so a label is a
  row position.
\<close>

type_synonym series = "(nat \<times> npfloat) list"

definition range_index :: "npfloat list \<Rightarrow> series" where
  "range_index xs = zip [0 ..< length xs] xs"

definition dropna :: "series \<Rightarrow> series" where
  "dropna s = filter (\<lambda>p. \<not> isna (snd p)) s"

text \<open>\<^verbatim>\<open>fillna(method='ffill')\<close> on one column: a gap takes the last value before it.\<close>

fun ffill_from :: "npfloat \<Rightarrow> npfloat list \<Rightarrow> npfloat list" where
  "ffill_from prev [] = []"
| "ffill_from prev (x # xs) =
     (if isna x then prev # ffill_from prev xs else x # ffill_from x xs)"

definition ffill :: "npfloat list \<Rightarrow> npfloat list" where
  "ffill xs = ffill_from NaN xs"

text \<open>\<^verbatim>\<open>shift(1)\<close>: every value moves one row down, the first row becomes NaN.\<close>

definition shift1 :: "npfloat list \<Rightarrow> npfloat list" where
  "shift1 xs = take (length xs) (NaN # xs)"

text \<open>
  \<^verbatim>\<open>pct_change()\<close> of pandas 2 (the version \<^verbatim>\<open>setup.py\<close> asks for): the default
  \<^verbatim>\<open>fill_method='pad'\<close> forward-fills the gaps, then the result is
  \<^verbatim>\<open>data / data.shift(1) - 1\<close>.
\<close>

definition pct_change :: "npfloat list \<Rightarrow> npfloat list" where
  "pct_change xs =
     (let d = ffill xs
      in map (\<lambda>(a, b). np_sub (np_div a b) (Fin 1)) (zip d (shift1 d)))"

text \<open>Reductions skip NaN (\<^verbatim>\<open>skipna=True\<close>); of no value at all they are NaN.\<close>

definition np_sum :: "npfloat list \<Rightarrow> npfloat" where
  "np_sum xs = foldl np_add (Fin 0) xs"

definition notna :: "npfloat list \<Rightarrow> npfloat list" where
  "notna xs = filter (\<lambda>x. \<not> isna x) xs"

definition mean :: "npfloat list \<Rightarrow> npfloat" where
  "mean xs =
     (let ys = notna xs
      in if ys = [] then NaN else np_div (np_sum ys) (Fin (real (length ys))))"

text \<open>\<^verbatim>\<open>Series.std()\<close>: the sample standard deviation (\<^verbatim>\<open>ddof=1\<close>), NaN below two values.\<close>

definition std :: "npfloat list \<Rightarrow> npfloat" where
  "std xs =
     (let ys = notna xs; n = length ys
      in if n \<le> 1 then NaN
         else let avg = np_div (np_sum ys) (Fin (real n));
                  sqr = map (\<lambda>y. np_mul (np_sub avg y) (np_sub avg y)) ys
              in np_sqrt (np_div (np_sum sqr) (Fin (real (n - 1)))))"

fun np_min_list :: "npfloat list \<Rightarrow> npfloat" where
  "np_min_list [] = NaN"
| "np_min_list (x # xs) = foldl np_min x xs"

definition series_min :: "npfloat list \<Rightarrow> npfloat" where
  "series_min xs = np_min_list (notna xs)"

text \<open>
  \<^verbatim>\<open>Series.cumprod()\<close>: a NaN row stays NaN and is left out of the running product.
\<close>

fun cumprod_from :: "npfloat \<Rightarrow> npfloat list \<Rightarrow> npfloat list" where
  "cumprod_from acc [] = []"
| "cumprod_from acc (x # xs) =
     (if isna x then NaN # cumprod_from acc xs
      else np_mul acc x # cumprod_from (np_mul acc x) xs)"

definition cumprod :: "npfloat list \<Rightarrow> npfloat list" where
  "cumprod xs = cumprod_from (Fin 1) xs"

text \<open>
  \<^verbatim>\<open>expanding().max()\<close> (\<^verbatim>\<open>min_periods=1\<close>): the largest value seen so far, NaN rows
  skipped; NaN while no value has been seen.
\<close>

fun expanding_max_from :: "npfloat \<Rightarrow> npfloat list \<Rightarrow> npfloat list" where
  "expanding_max_from cur [] = []"
| "expanding_max_from cur (x # xs) =
     (let new = (if isna x then cur else if isna cur then x else np_max cur x)
      in new # expanding_max_from new xs)"

definition expanding_max :: "npfloat list \<Rightarrow> npfloat list" where
  "expanding_max xs = expanding_max_from NaN xs"

section \<open>DataFrames and the object store\<close>

text \<open>
  A DataFrame is its labelled columns, in order; pandas allows a label to occur twice. A
  column has a dtype: float64, datetime64, or object. A timestamp is a day number (the
  program's data is daily); an object column stands for dates not yet parsed, each entry
  abstracted to the day its text denotes. The row index is left out: every frame the
  program keeps has the default index \<^verbatim>\<open>0 .. n-1\<close>.
\<close>

datatype column = FloatCol "npfloat list" | DatetimeCol "int list" | ObjectCol "int list"

type_synonym dataframe = "(string \<times> column) list"

datatype error =
  ValueError | KeyError | IndexError | TypeError | IndexingError
  | ZeroDivisionError | AttributeError | OutsideModel

fun col_len :: "column \<Rightarrow> nat" where
  "col_len (FloatCol xs) = length xs"
| "col_len (DatetimeCol ds) = length ds"
| "col_len (ObjectCol ds) = length ds"

fun nrows :: "dataframe \<Rightarrow> nat" where
  "nrows [] = 0"
| "nrows (c # cs) = col_len (snd c)"

definition labels :: "dataframe \<Rightarrow> string list" where
  "labels df = map fst df"

text \<open>
  \<^verbatim>\<open>df[label]\<close>: KeyError without such a column. A label that several columns carry selects
  a DataFrame, not a Series; each use this program makes of the selection raises on one
  (\<^verbatim>\<open>pd.to_datetime\<close>, the truth value of \<^verbatim>\<open>returns.std() > 0\<close>, \<^verbatim>\<open>pd.date_range\<close>),
  so the model raises ValueError at the selection.
\<close>

definition getitem :: "dataframe \<Rightarrow> string \<Rightarrow> error + column" where
  "getitem df label =
     (case filter (\<lambda>c. fst c = label) df of
        [] \<Rightarrow> Inl KeyError
      | [c] \<Rightarrow> Inr (snd c)
      | _ \<Rightarrow> Inl ValueError)"

text \<open>\<^verbatim>\<open>df[label] = col\<close> for a label the frame has: the column is replaced in place.\<close>

definition setitem :: "dataframe \<Rightarrow> string \<Rightarrow> column \<Rightarrow> dataframe" where
  "setitem df label col = map (\<lambda>c. if fst c = label then (label, col) else c) df"

fun is_datetime64_any_dtype :: "column \<Rightarrow> bool" where
  "is_datetime64_any_dtype (DatetimeCol ds) = True"
| "is_datetime64_any_dtype _ = False"

text \<open>
  \<^verbatim>\<open>pd.to_datetime\<close>: the texts of an object column are parsed. Numbers would be read as
  nanoseconds since the epoch, below the resolution of a day number: not modelled.
\<close>

fun to_datetime :: "column \<Rightarrow> error + column" where
  "to_datetime (DatetimeCol ds) = Inr (DatetimeCol ds)"
| "to_datetime (ObjectCol ds) = Inr (DatetimeCol ds)"
| "to_datetime (FloatCol xs) = Inl OutsideModel"

fun take_rows :: "nat list \<Rightarrow> column \<Rightarrow> column" where
  "take_rows order (FloatCol xs) = FloatCol (map (\<lambda>i. xs ! i) order)"
| "take_rows order (DatetimeCol ds) = DatetimeCol (map (\<lambda>i. ds ! i) order)"
| "take_rows order (ObjectCol ds) = ObjectCol (map (\<lambda>i. ds ! i) order)"

text \<open>
  \<^verbatim>\<open>df.sort_values(label).reset_index(drop=True)\<close> by a datetime column: the rows in
  ascending order of the key. pandas leaves the order of rows with equal keys open (its
  default quicksort keeps their input order on short frames only); here they keep their
  input order.
\<close>

definition sort_values :: "dataframe \<Rightarrow> string \<Rightarrow> error + dataframe" where
  "sort_values df label =
     (case getitem df label of
        Inl e \<Rightarrow> Inl e
      | Inr (DatetimeCol ds) \<Rightarrow>
          (let order = sort_key (\<lambda>i. ds ! i) [0 ..< length ds]
           in Inr (map (\<lambda>c. (fst c, take_rows order (snd c))) df))
      | Inr _ \<Rightarrow> Inl OutsideModel)"

text \<open>
  DataFrames are mutable objects that callers and PriceSeries instances share by
  reference. The store holds every DataFrame object; an address is its position, and a
  new object is appended.
\<close>

type_synonym addr = nat

type_synonym store = "dataframe list"

definition alloc :: "store \<Rightarrow> dataframe \<Rightarrow> store \<times> addr" where
  "alloc st df = (st @ [df], length st)"

section \<open>PriceSeries (src/models/price_series.py)\<close>

type_synonym stats = "(string \<times> npfloat) list"

record PriceSeries =
  symbol :: string
  data :: addr
  source :: string
  asset_type :: string
  stats :: stats

definition required :: "string list" where
  "required = [''date'', ''close'']"

text \<open>
  \<^verbatim>\<open>_validate_data\<close>. \<^verbatim>\<open>self.data\<close> is the caller's frame (address \<open>a\<close>) when the method
  starts: the assignment to its date column writes into that object. The sorted frame is
  a new object, to which \<^verbatim>\<open>self.data\<close> is rebound; its address is returned.
\<close>

definition validate_data :: "store \<Rightarrow> addr \<Rightarrow> store \<times> (error + addr)" where
  "validate_data st a =
     (if \<not> list_all (\<lambda>col. col \<in> set (labels (st ! a))) required
      then (st, Inl ValueError)
      else case getitem (st ! a) ''date'' of
        Inl e \<Rightarrow> (st, Inl e)
      | Inr c \<Rightarrow>
          (case (if \<not> is_datetime64_any_dtype c
                 then (case to_datetime c of
                         Inl e \<Rightarrow> Inl e
                       | Inr c' \<Rightarrow> Inr (st[a := setitem (st ! a) ''date'' c']))
                 else Inr st) of
             Inl e \<Rightarrow> (st, Inl e)
           | Inr st1 \<Rightarrow>
               (case sort_values (st1 ! a) ''date'' of
                  Inl e \<Rightarrow> (st1, Inl e)
                | Inr sorted_df \<Rightarrow>
                    (let (st2, b) = alloc st1 sorted_df in (st2, Inr b)))))"

definition column_mapping :: "(string \<times> string) list" where
  "column_mapping =
     [(''Date'', ''date''), (''Close'', ''close''), (''Open'', ''open''),
      (''High'', ''high''), (''Low'', ''low''), (''Volume'', ''volume''),
      (''Adj Close'', ''adj_close'')]"

definition lower_char :: "char \<Rightarrow> char" where
  "lower_char c =
     (case map_of (zip ''ABCDEFGHIJKLMNOPQRSTUVWXYZ'' ''abcdefghijklmnopqrstuvwxyz'') c of
        Some d \<Rightarrow> d
      | None \<Rightarrow> c)"

text \<open>\<^verbatim>\<open>str.lower\<close> on the ASCII letters.\<close>

definition lower :: "string \<Rightarrow> string" where
  "lower s = map lower_char s"

definition rename :: "(string \<times> string) list \<Rightarrow> dataframe \<Rightarrow> dataframe" where
  "rename m df =
     map (\<lambda>c. ((case map_of m (fst c) of Some l \<Rightarrow> l | None \<Rightarrow> fst c), snd c)) df"

text \<open>
  \<^verbatim>\<open>_standardize_columns\<close>: both steps write into the frame \<^verbatim>\<open>self.data\<close> refers to,
  which is the sorted copy at address \<open>b\<close>.
\<close>

definition standardize_columns :: "store \<Rightarrow> addr \<Rightarrow> store" where
  "standardize_columns st b =
     st[b := map (\<lambda>c. (lower (fst c), snd c)) (rename column_mapping (st ! b))]"

text \<open>\<^verbatim>\<open>self.data['close']\<close> as numbers: arithmetic on another dtype raises TypeError.\<close>

definition close_values :: "dataframe \<Rightarrow> error + npfloat list" where
  "close_values df =
     (case getitem df ''close'' of
        Inl e \<Rightarrow> Inl e
      | Inr (FloatCol xs) \<Rightarrow> Inr xs
      | Inr _ \<Rightarrow> Inl TypeError)"

definition calculate_max_drawdown :: "dataframe \<Rightarrow> error + npfloat" where
  "calculate_max_drawdown df =
     (case close_values df of
        Inl e \<Rightarrow> Inl e
      | Inr xs \<Rightarrow>
          (let cumulative = cumprod (map (np_add (Fin 1)) (pct_change xs));
               running_max = expanding_max cumulative;
               drawdown = map (\<lambda>(c, m). np_div (np_sub c m) m) (zip cumulative running_max)
           in Inr (series_min drawdown)))"

definition get_returns_frame :: "dataframe \<Rightarrow> error + series" where
  "get_returns_frame df =
     (case close_values df of
        Inl e \<Rightarrow> Inl e
      | Inr xs \<Rightarrow> Inr (dropna (range_index (pct_change xs))))"

text \<open>
  \<^verbatim>\<open>_calculate_basic_stats\<close>. \<^verbatim>\<open>iloc[-1]\<close> and \<^verbatim>\<open>iloc[0]\<close> raise IndexError on a
  frame without rows.
\<close>

definition calculate_basic_stats :: "dataframe \<Rightarrow> error + stats" where
  "calculate_basic_stats df =
     (case get_returns_frame df of
        Inl e \<Rightarrow> Inl e
      | Inr rs \<Rightarrow>
          (case close_values df of
             Inl e \<Rightarrow> Inl e
           | Inr xs \<Rightarrow>
               if xs = [] then Inl IndexError
               else case calculate_max_drawdown df of
                 Inl e \<Rightarrow> Inl e
               | Inr mdd \<Rightarrow>
                   (let returns = map snd rs
                    in Inr
                      [(''mean_return'', mean returns),
                       (''std_return'', std returns),
                       (''sharpe_ratio'',
                          (if np_less (Fin 0) (std returns)
                           then np_mul (np_div (mean returns) (std returns)) sqrt252
                           else Fin 0)),
                       (''total_return'', np_sub (np_div (last xs) (hd xs)) (Fin 1)),
                       (''volatility'', np_mul (std returns) sqrt252),
                       (''max_drawdown'', mdd)])))"

text \<open>
  \<^verbatim>\<open>PriceSeries(symbol, data, source, asset_type)\<close>: \<^verbatim>\<open>__post_init__\<close> runs the three
  steps. The store is returned also when a step raises: what was written stays written.
\<close>

definition PriceSeries_init ::
  "store \<Rightarrow> string \<Rightarrow> addr \<Rightarrow> string \<Rightarrow> string \<Rightarrow> store \<times> (error + PriceSeries)" where
  "PriceSeries_init st sy a src ty =
     (case validate_data st a of
        (st1, Inl e) \<Rightarrow> (st1, Inl e)
      | (st1, Inr b) \<Rightarrow>
          (let st2 = standardize_columns st1 b
           in case calculate_basic_stats (st2 ! b) of
                Inl e \<Rightarrow> (st2, Inl e)
              | Inr s \<Rightarrow>
                  (st2, Inr \<lparr>symbol = sy, data = b, source = src, asset_type = ty,
                             stats = s\<rparr>)))"

definition get_returns :: "store \<Rightarrow> PriceSeries \<Rightarrow> error + series" where
  "get_returns st ps = get_returns_frame (st ! data ps)"

definition get_stats :: "PriceSeries \<Rightarrow> stats" where
  "get_stats ps = stats ps"

section \<open>Portfolio (src/models/portfolio.py)\<close>

text \<open>A dict is the list of its items in insertion order; its keys are distinct.\<close>

record Portfolio =
  holdings :: "(string \<times> PriceSeries) list"
  weights :: "(string \<times> real) list"
  name :: string

text \<open>\<^verbatim>\<open>np.isclose(a, b)\<close> with the default \<^verbatim>\<open>rtol=1e-05\<close> and \<^verbatim>\<open>atol=1e-08\<close>.\<close>

definition isclose :: "real \<Rightarrow> real \<Rightarrow> bool" where
  "isclose a b = (\<bar>a - b\<bar> \<le> 1 / 10 ^ 8 + 1 / 10 ^ 5 * \<bar>b\<bar>)"

text \<open>What \<^verbatim>\<open>__post_init__\<close> prints: the warning that the weights are being rescaled.\<close>

datatype printed = PesosNoSuman real

definition check_symbols ::
  "(string \<times> PriceSeries) list \<Rightarrow> (string \<times> real) list \<Rightarrow> string \<Rightarrow> error + Portfolio" where
  "check_symbols h w nm =
     (if set (map fst h) \<noteq> set (map fst w) then Inl ValueError
      else Inr \<lparr>holdings = h, weights = w, name = nm\<rparr>)"

text \<open>
  \<^verbatim>\<open>Portfolio(holdings, weights, name)\<close>: \<^verbatim>\<open>__post_init__\<close>, with exact arithmetic on
  finite weights. The weights are Python floats, whose division by zero raises
  ZeroDivisionError; the rescaling runs before the symbols are compared. This is the
  constructor wherever the float operations it performs are exact, as on the portfolios
  evaluated below (two halves, a single 1, no weight at all).
\<close>

definition Portfolio_init ::
  "(string \<times> PriceSeries) list \<Rightarrow> (string \<times> real) list \<Rightarrow> string
     \<Rightarrow> printed list \<times> (error + Portfolio)" where
  "Portfolio_init h w nm =
     (let total_weight = sum_list (map snd w)
      in if \<not> isclose total_weight 1
         then (if w \<noteq> [] \<and> total_weight = 0
               then ([PesosNoSuman total_weight], Inl ZeroDivisionError)
               else ([PesosNoSuman total_weight],
                     check_symbols h (map (\<lambda>kv. (fst kv, snd kv / total_weight)) w) nm))
         else ([], check_symbols h w nm))"

text \<open>
  \<^verbatim>\<open>__post_init__\<close> on Python floats. The method does three things with the weights: it
  adds them up with \<^verbatim>\<open>sum\<close>, it tests the total with \<^verbatim>\<open>np.isclose(total_weight, 1.0)\<close>,
  and it divides each weight by the total. How Python sums floats, how a division rounds
  and when either overflows to an infinity is the language's and not this program's:
  \<open>Portfolio_post_init\<close> takes the float sum, the float division and the test as
  parameters, so that what is proved of it holds of every float arithmetic. Two things are
  fixed: the \<^verbatim>\<open>sum\<close> of no value is 0, and the division by a zero total raises
  ZeroDivisionError. The method leaves the holdings and the name alone; the result is what
  is printed and either the error raised or the weights the instance ends up with.
\<close>

definition total_weight_of :: "(npfloat list \<Rightarrow> npfloat) \<Rightarrow> (string \<times> npfloat) list \<Rightarrow> npfloat" where
  "total_weight_of float_sum w = (if w = [] then Fin 0 else float_sum (map snd w))"

datatype float_printed = Normalizando npfloat

definition Portfolio_post_init ::
  "(npfloat list \<Rightarrow> npfloat) \<Rightarrow> (npfloat \<Rightarrow> npfloat \<Rightarrow> npfloat) \<Rightarrow> (npfloat \<Rightarrow> bool)
     \<Rightarrow> string list \<Rightarrow> (string \<times> npfloat) list
     \<Rightarrow> float_printed list \<times> (error + (string \<times> npfloat) list)" where
  "Portfolio_post_init float_sum float_div isclose_one symbols w =
     (let total_weight = total_weight_of float_sum w
      in if \<not> isclose_one total_weight
         then (if w \<noteq> [] \<and> total_weight = Fin 0
               then ([Normalizando total_weight], Inl ZeroDivisionError)
               else (let ws = map (\<lambda>kv. (fst kv, float_div (snd kv) total_weight)) w
                     in ([Normalizando total_weight],
                         if set symbols \<noteq> set (map fst ws) then Inl ValueError else Inr ws)))
         else ([], if set symbols \<noteq> set (map fst w) then Inl ValueError else Inr w))"

text \<open>
  The exact test: \<^verbatim>\<open>np.isclose(t, 1.0)\<close> on a finite \<open>t\<close> without rounding; an infinity
  and NaN are close to nothing.
\<close>

fun isclose_exact :: "npfloat \<Rightarrow> bool" where
  "isclose_exact (Fin t) = isclose t 1"
| "isclose_exact _ = False"

text \<open>The number a finite float is.\<close>

fun real_of_float :: "npfloat \<Rightarrow> real" where
  "real_of_float (Fin t) = t"
| "real_of_float _ = 0"

text \<open>
  Overflow as float64 has it, rounding left out: a finite result at or beyond
  \<open>2^1024 - 2^970\<close> (the largest float64 and half a unit in its last place) is the
  infinity of its sign.
\<close>

fun float64_overflow :: "npfloat \<Rightarrow> npfloat" where
  "float64_overflow (Fin r) = (if 2 ^ 1024 - 2 ^ 970 \<le> \<bar>r\<bar> then inf_of_sign r else Fin r)"
| "float64_overflow x = x"

text \<open>
  \<^verbatim>\<open>all_returns\<close>: a frame of float columns with an explicit row index.
  \<^verbatim>\<open>all_returns[symbol] = returns\<close> aligns the Series on the frame's index: a label the
  Series lacks gets NaN, a label the frame lacks is dropped. A frame whose index is still
  empty takes the index of the first non-empty Series assigned to it.
\<close>

type_synonym rframe = "nat list \<times> (string \<times> npfloat list) list"

definition assign_column :: "rframe \<Rightarrow> string \<Rightarrow> series \<Rightarrow> rframe" where
  "assign_column fr label s =
     (if fst fr = [] \<and> s \<noteq> []
      then (map fst s, map (\<lambda>c. (fst c, map (\<lambda>_. NaN) s)) (snd fr) @ [(label, map snd s)])
      else (fst fr,
            snd fr @ [(label, map (\<lambda>i. case map_of s i of Some v \<Rightarrow> v | None \<Rightarrow> NaN)
                                   (fst fr))]))"

fun collect_returns ::
  "store \<Rightarrow> (string \<times> PriceSeries) list \<Rightarrow> rframe \<Rightarrow> error + rframe" where
  "collect_returns st [] fr = Inr fr"
| "collect_returns st (h # hs) fr =
     (case get_returns st (snd h) of
        Inl e \<Rightarrow> Inl e
      | Inr returns \<Rightarrow> collect_returns st hs (assign_column fr (fst h) returns))"

text \<open>\<^verbatim>\<open>all_returns.dropna()\<close>: a row with NaN in any column is dropped.\<close>

definition dropna_rows :: "rframe \<Rightarrow> rframe" where
  "dropna_rows fr =
     (let keep = filter (\<lambda>j. list_all (\<lambda>c. \<not> isna (snd c ! j)) (snd fr))
                        [0 ..< length (fst fr)]
      in (map (\<lambda>j. fst fr ! j) keep,
          map (\<lambda>c. (fst c, map (\<lambda>j. snd c ! j) keep)) (snd fr)))"

text \<open>
  The value \<^verbatim>\<open>get_portfolio_returns\<close> returns: Python's \<^verbatim>\<open>sum\<close> starts from the integer
  0, and adding a Series to it gives a Series.
\<close>

datatype pyobj = IntObj int | SeriesObj series

fun add_term :: "pyobj \<Rightarrow> nat list \<Rightarrow> npfloat list \<Rightarrow> pyobj" where
  "add_term (IntObj k) ix ts = SeriesObj (zip ix (map (np_add (Fin (real_of_int k))) ts))"
| "add_term (SeriesObj s) ix ts =
     SeriesObj (zip ix (map (\<lambda>(a, b). np_add a b) (zip (map snd s) ts)))"

fun weighted_sum ::
  "rframe \<Rightarrow> (string \<times> real) list \<Rightarrow> string list \<Rightarrow> pyobj \<Rightarrow> error + pyobj" where
  "weighted_sum fr w [] acc = Inr acc"
| "weighted_sum fr w (k # ks) acc =
     (case map_of (snd fr) k of
        None \<Rightarrow> Inl KeyError
      | Some vs \<Rightarrow>
          (case map_of w k of
             None \<Rightarrow> Inl KeyError
           | Some wk \<Rightarrow>
               weighted_sum fr w ks
                 (add_term acc (fst fr) (map (\<lambda>v. np_mul v (Fin wk)) vs))))"

definition get_portfolio_returns :: "store \<Rightarrow> Portfolio \<Rightarrow> error + pyobj" where
  "get_portfolio_returns st p =
     (case collect_returns st (holdings p) ([], []) of
        Inl e \<Rightarrow> Inl e
      | Inr all_returns \<Rightarrow>
          weighted_sum (dropna_rows all_returns) (weights p) (map fst (holdings p))
            (IntObj 0))"

text \<open>\<^verbatim>\<open>Portfolio.get_stats\<close>. An int has no \<^verbatim>\<open>mean\<close>: AttributeError.\<close>

definition Portfolio_get_stats :: "store \<Rightarrow> Portfolio \<Rightarrow> error + stats" where
  "Portfolio_get_stats st p =
     (case get_portfolio_returns st p of
        Inl e \<Rightarrow> Inl e
      | Inr (IntObj k) \<Rightarrow> Inl AttributeError
      | Inr (SeriesObj s) \<Rightarrow>
          (let portfolio_returns = map snd s
           in Inr
             [(''mean_return'', mean portfolio_returns),
              (''std_return'', std portfolio_returns),
              (''sharpe_ratio'',
                 np_mul (np_div (mean portfolio_returns) (std portfolio_returns)) sqrt252),
              (''annualized_return'', np_mul (mean portfolio_returns) (Fin 252)),
              (''annualized_volatility'', np_mul (std portfolio_returns) sqrt252)]))"

text \<open>\<^verbatim>\<open>ndarray.cumprod()\<close>: the running product; NaN is not skipped.\<close>

fun np_cumprod_from :: "npfloat \<Rightarrow> npfloat list \<Rightarrow> npfloat list" where
  "np_cumprod_from acc [] = []"
| "np_cumprod_from acc (x # xs) = np_mul acc x # np_cumprod_from (np_mul acc x) xs"

definition np_cumprod :: "npfloat list \<Rightarrow> npfloat list" where
  "np_cumprod xs = np_cumprod_from (Fin 1) xs"

text \<open>
  The loop of \<^verbatim>\<open>monte_carlo_simulation\<close>. \<^verbatim>\<open>np.random.normal(loc, scale, size)\<close> is numpy's:
  the model takes it as the parameter \<open>normal\<close>, a function of the generator's state that
  returns the draws and the next state. Assigning a path of another length than
  \<^verbatim>\<open>n_days\<close> to a row of the array raises ValueError.
\<close>

fun simulate ::
  "('g \<Rightarrow> npfloat \<Rightarrow> npfloat \<Rightarrow> nat \<Rightarrow> npfloat list \<times> 'g) \<Rightarrow> 'g \<Rightarrow> npfloat \<Rightarrow> npfloat
     \<Rightarrow> nat \<Rightarrow> real \<Rightarrow> nat \<Rightarrow> error + npfloat list list" where
  "simulate normal g mean_return std_return n_days initial_investment 0 = Inr []"
| "simulate normal g mean_return std_return n_days initial_investment (Suc k) =
     (let (daily_returns, g') = normal g mean_return std_return n_days;
          price_path = map (np_mul (Fin initial_investment))
                           (np_cumprod (map (np_add (Fin 1)) daily_returns))
      in if length price_path \<noteq> n_days then Inl ValueError
         else case simulate normal g' mean_return std_return n_days initial_investment k of
                Inl e \<Rightarrow> Inl e
              | Inr rows \<Rightarrow> Inr (price_path # rows))"

definition monte_carlo_simulation ::
  "('g \<Rightarrow> npfloat \<Rightarrow> npfloat \<Rightarrow> nat \<Rightarrow> npfloat list \<times> 'g) \<Rightarrow> 'g \<Rightarrow> store \<Rightarrow> Portfolio
     \<Rightarrow> nat \<Rightarrow> nat \<Rightarrow> real \<Rightarrow> error + npfloat list list" where
  "monte_carlo_simulation normal g st p n_simulations n_days initial_investment =
     (case get_portfolio_returns st p of
        Inl e \<Rightarrow> Inl e
      | Inr (IntObj k) \<Rightarrow> Inl AttributeError
      | Inr (SeriesObj s) \<Rightarrow>
          simulate normal g (mean (map snd s)) (std (map snd s)) n_days
            initial_investment n_simulations)"

text \<open>
  The draws of the successive trials: what \<open>n\<close> calls of the random source return, each
  call starting from the state the call before it left.
\<close>

fun draws ::
  "('g \<Rightarrow> npfloat \<Rightarrow> npfloat \<Rightarrow> nat \<Rightarrow> npfloat list \<times> 'g) \<Rightarrow> 'g \<Rightarrow> npfloat \<Rightarrow> npfloat
     \<Rightarrow> nat \<Rightarrow> nat \<Rightarrow> npfloat list list" where
  "draws normal g mean_return std_return n_days 0 = []"
| "draws normal g mean_return std_return n_days (Suc k) =
     (let (daily_returns, g') = normal g mean_return std_return n_days
      in daily_returns # draws normal g' mean_return std_return n_days k)"

section \<open>DataCleaner (src/processors/cleaner.py)\<close>

text \<open>
  \<^verbatim>\<open>df[mask]\<close> with a boolean Series: pandas aligns the mask on the frame's index (here
  \<^verbatim>\<open>0 .. n-1\<close>) and raises IndexingError ("Unalignable boolean Series provided as
  indexer") when the mask lacks one of the frame's labels; it never fills a missing label
  in. The rows whose label the mask maps to True are kept, renumbered by
  \<^verbatim>\<open>reset_index(drop=True)\<close>.
\<close>

definition getitem_bool :: "dataframe \<Rightarrow> (nat \<times> bool) list \<Rightarrow> error + dataframe" where
  "getitem_bool df key =
     (if \<not> list_all (\<lambda>i. i \<in> set (map fst key)) [0 ..< nrows df]
      then Inl IndexingError
      else (let keep = filter (\<lambda>i. map_of key i = Some True) [0 ..< nrows df]
            in Inr (map (\<lambda>c. (fst c, take_rows keep (snd c))) df)))"

text \<open>
  The mask of \<^verbatim>\<open>remove_outliers\<close>, on the return stream: it has the labels of the return
  stream. \<^verbatim>\<open>Series.quantile\<close> is pandas' own; the model takes it as the parameter
  \<open>quantile\<close>.
\<close>

definition iqr_mask :: "(real \<Rightarrow> npfloat list \<Rightarrow> npfloat) \<Rightarrow> series \<Rightarrow> (nat \<times> bool) list" where
  "iqr_mask quantile returns =
     (let Q1 = quantile (1 / 4) (map snd returns);
          Q3 = quantile (3 / 4) (map snd returns);
          IQR = np_sub Q3 Q1
      in map (\<lambda>r. (fst r,
                    np_le (np_sub Q1 (np_mul (Fin (3 / 2)) IQR)) (snd r)
                    \<and> np_le (snd r) (np_add Q3 (np_mul (Fin (3 / 2)) IQR))))
             returns)"

definition zscore_mask :: "real \<Rightarrow> series \<Rightarrow> (nat \<times> bool) list" where
  "zscore_mask threshold returns =
     (let m = mean (map snd returns); sd = std (map snd returns)
      in map (\<lambda>r. (fst r, np_less (np_abs (np_div (np_sub (snd r) m) sd)) (Fin threshold)))
             returns)"

definition remove_outliers ::
  "(real \<Rightarrow> npfloat list \<Rightarrow> npfloat) \<Rightarrow> store \<Rightarrow> PriceSeries \<Rightarrow> string \<Rightarrow> real
     \<Rightarrow> store \<times> (error + PriceSeries)" where
  "remove_outliers quantile st series method threshold =
     (case get_returns st series of
        Inl e \<Rightarrow> (st, Inl e)
      | Inr returns \<Rightarrow>
          (case (if method = ''iqr'' then Inr (iqr_mask quantile returns)
                 else if method = ''zscore'' then Inr (zscore_mask threshold returns)
                 else Inl ValueError) of
             Inl e \<Rightarrow> (st, Inl e)
           | Inr msk \<Rightarrow>
               (case getitem_bool (st ! data series) msk of
                  Inl e \<Rightarrow> (st, Inl e)
                | Inr clean_data \<Rightarrow>
                    (let (st1, a) = alloc st clean_data
                     in PriceSeries_init st1 (symbol series) a (source series)
                          (asset_type series)))))"

text \<open>\<^verbatim>\<open>pd.date_range(start, end, freq='D')\<close>: every day from start to end.\<close>

definition date_range :: "int \<Rightarrow> int \<Rightarrow> int list" where
  "date_range start stop = [start .. stop]"

fun index_of :: "int list \<Rightarrow> int \<Rightarrow> nat option" where
  "index_of [] d = None"
| "index_of (x # xs) d = (if x = d then Some 0 else map_option Suc (index_of xs d))"

text \<open>
  One column after \<^verbatim>\<open>set_index('date').reindex(date_range)\<close>: the row of each day, NaN
  on a day the series lacks. A missing timestamp (NaT) in a column that is not float64 is
  not modelled.
\<close>

fun reindex_column :: "int list \<Rightarrow> int list \<Rightarrow> column \<Rightarrow> error + column" where
  "reindex_column ds days (FloatCol xs) =
     Inr (FloatCol (map (\<lambda>d. case index_of ds d of Some i \<Rightarrow> xs ! i | None \<Rightarrow> NaN) days))"
| "reindex_column ds days (DatetimeCol ts) =
     (if list_all (\<lambda>d. d \<in> set ds) days
      then Inr (DatetimeCol (map (\<lambda>d. ts ! the (index_of ds d)) days))
      else Inl OutsideModel)"
| "reindex_column ds days (ObjectCol ts) =
     (if list_all (\<lambda>d. d \<in> set ds) days
      then Inr (ObjectCol (map (\<lambda>d. ts ! the (index_of ds d)) days))
      else Inl OutsideModel)"

fun reindex_columns :: "int list \<Rightarrow> int list \<Rightarrow> dataframe \<Rightarrow> error + dataframe" where
  "reindex_columns ds days [] = Inr []"
| "reindex_columns ds days (c # cs) =
     (case reindex_column ds days (snd c) of
        Inl e \<Rightarrow> Inl e
      | Inr col \<Rightarrow>
          (case reindex_columns ds days cs of
             Inl e \<Rightarrow> Inl e
           | Inr rest \<Rightarrow> Inr ((fst c, col) # rest)))"

text \<open>
  \<^verbatim>\<open>interpolate(method='linear')\<close> on one float column: a gap between two values lies on
  the line through them (rows equally spaced), a gap after the last value takes that
  value, a gap before the first value stays NaN.
\<close>

fun next_valid :: "npfloat list \<Rightarrow> (nat \<times> npfloat) option" where
  "next_valid [] = None"
| "next_valid (x # xs) =
     (if isna x then map_option (\<lambda>kv. (Suc (fst kv), snd kv)) (next_valid xs)
      else Some (0, x))"

fun interpolate_from :: "(nat \<times> npfloat) option \<Rightarrow> npfloat list \<Rightarrow> npfloat list" where
  "interpolate_from prev [] = []"
| "interpolate_from prev (x # xs) =
     (if isna x
      then (case prev of
              None \<Rightarrow> NaN # interpolate_from None xs
            | Some (i, a) \<Rightarrow>
                (case next_valid xs of
                   None \<Rightarrow> a
                 | Some (k, b) \<Rightarrow>
                     np_add (np_mul (np_div (np_sub b a) (Fin (real (i + k + 1))))
                                    (Fin (real i))) a)
                # interpolate_from (Some (Suc i, a)) xs)
      else x # interpolate_from (Some (1, x)) xs)"

fun fill_column :: "string \<Rightarrow> column \<Rightarrow> column" where
  "fill_column method (FloatCol xs) =
     (if method = ''ffill'' then FloatCol (ffill xs)
      else if method = ''interpolate'' then FloatCol (interpolate_from None xs)
      else FloatCol xs)"
| "fill_column method c = c"

text \<open>
  \<^verbatim>\<open>fill_missing_dates\<close>. \<^verbatim>\<open>date_range\<close> of an empty date column raises ValueError, as
  \<^verbatim>\<open>reindex\<close> does on a date that occurs twice. \<^verbatim>\<open>reset_index\<close> names the column of
  the dates \<^verbatim>\<open>index\<close>, or \<^verbatim>\<open>level_0\<close> on a frame that already has a column \<^verbatim>\<open>index\<close>
  (then it is that column which \<^verbatim>\<open>rename\<close> turns into \<^verbatim>\<open>date\<close>), and raises ValueError
  when both names are taken. The two methods are the branches of an \<^verbatim>\<open>if\<close>/\<^verbatim>\<open>elif\<close>
  without \<^verbatim>\<open>else\<close>.
\<close>

definition fill_missing_dates ::
  "store \<Rightarrow> PriceSeries \<Rightarrow> string \<Rightarrow> store \<times> (error + PriceSeries)" where
  "fill_missing_dates st series method =
     (case getitem (st ! data series) ''date'' of
        Inl e \<Rightarrow> (st, Inl e)
      | Inr (DatetimeCol ds) \<Rightarrow>
          (if ds = [] then (st, Inl ValueError)
           else if \<not> distinct ds then (st, Inl ValueError)
           else (let days = date_range (Min (set ds)) (Max (set ds));
                     others = filter (\<lambda>c. fst c \<noteq> ''date'') (st ! data series)
                 in case reindex_columns ds days others of
                      Inl e \<Rightarrow> (st, Inl e)
                    | Inr cols \<Rightarrow>
                        if ''index'' \<in> set (labels cols) \<and> ''level_0'' \<in> set (labels cols)
                        then (st, Inl ValueError)
                        else (let filled = map (\<lambda>c. (fst c, fill_column method (snd c))) cols;
                                  default_name = (if ''index'' \<in> set (labels cols) then ''level_0''
                                             else ''index'');
                                  df = rename [(''index'', ''date'')]
                                         ((default_name, DatetimeCol days) # filled);
                                  (st1, a) = alloc st df
                              in PriceSeries_init st1 (symbol series) a (source series)
                                   (asset_type series))))
      | Inr _ \<Rightarrow> (st, Inl OutsideModel))"

section \<open>The aggregation as the specification words it\<close>

text \<open>
  The return stream of a series with each return beside the date of its row, and the
  portfolio return the specification describes: the streams joined on the dates all of them
  have, the return of a date being the sum over the symbols of return times weight, and an
  empty stream for no holdings. \<open>spec_portfolio_returns\<close> follows the specification's
  words, not the source; it is what \<open>get_portfolio_returns\<close> is compared with.
\<close>

definition returns_by_date :: "store \<Rightarrow> PriceSeries \<Rightarrow> error + (int \<times> npfloat) list" where
  "returns_by_date st ps =
     (case getitem (st ! data ps) ''date'' of
        Inl e \<Rightarrow> Inl e
      | Inr (DatetimeCol ds) \<Rightarrow>
          (case get_returns st ps of
             Inl e \<Rightarrow> Inl e
           | Inr rs \<Rightarrow> Inr (map (\<lambda>r. (ds ! fst r, snd r)) rs))
      | Inr _ \<Rightarrow> Inl TypeError)"

fun weighted_on :: "(real \<times> (int \<times> npfloat) list) list \<Rightarrow> int \<Rightarrow> npfloat option" where
  "weighted_on [] d = Some (Fin 0)"
| "weighted_on (ws # rest) d =
     (case (map_of (snd ws) d, weighted_on rest d) of
        (Some v, Some acc) \<Rightarrow> Some (np_add (np_mul v (Fin (fst ws))) acc)
      | _ \<Rightarrow> None)"

definition spec_portfolio_returns ::
  "(real \<times> (int \<times> npfloat) list) list \<Rightarrow> (int \<times> npfloat) list" where
  "spec_portfolio_returns streams =
     (case streams of
        [] \<Rightarrow> []
      | ws # rest \<Rightarrow>
          List.map_filter (\<lambda>d. map_option (Pair d) (weighted_on streams d))
            (map fst (snd ws)))"

section \<open>Example inputs\<close>

text \<open>Two assets whose observations start one day apart, held half and half.\<close>

definition shifted_frames :: store where
  "shifted_frames =
     [[(''date'', DatetimeCol [1, 2, 3]), (''close'', FloatCol [Fin 100, Fin 110, Fin 132])],
      [(''date'', DatetimeCol [2, 3, 4]), (''close'', FloatCol [Fin 100, Fin 200, Fin 100])]]"

definition shifted_A :: "store \<times> (error + PriceSeries)" where
  "shifted_A = PriceSeries_init shifted_frames ''A'' 0 ''test'' ''stock''"

definition shifted_B :: "store \<times> (error + PriceSeries)" where
  "shifted_B = PriceSeries_init (fst shifted_A) ''B'' 1 ''test'' ''stock''"

definition shifted_portfolio :: "printed list \<times> (error + Portfolio)" where
  "shifted_portfolio =
     Portfolio_init [(''A'', projr (snd shifted_A)), (''B'', projr (snd shifted_B))]
       [(''A'', 1 / 2), (''B'', 1 / 2)] ''P''"

text \<open>The portfolio without holdings.\<close>

definition empty_portfolio :: Portfolio where
  "empty_portfolio = \<lparr>holdings = [], weights = [], name = ''P''\<rparr>"

text \<open>A frame in which two observations carry the same date.\<close>

definition twin_dates :: store where
  "twin_dates = [[(''date'', DatetimeCol [1, 1]), (''close'', FloatCol [Fin 100, Fin 101])]]"

definition twin_series :: "store \<times> (error + PriceSeries)" where
  "twin_series = PriceSeries_init twin_dates ''A'' 0 ''test'' ''stock''"

text \<open>Three observations given out of order, with an optional column under its alias.\<close>

definition unordered_frame :: store where
  "unordered_frame =
     [[(''date'', DatetimeCol [3, 1, 2]),
       (''close'', FloatCol [Fin 121, Fin 100, Fin 110]),
       (''Adj Close'', FloatCol [Fin 120, Fin 99, Fin 109])]]"

definition unordered_series :: "store \<times> (error + PriceSeries)" where
  "unordered_series = PriceSeries_init unordered_frame ''A'' 0 ''test'' ''stock''"

text \<open>A price that halves and then recovers a part; a series of one observation.\<close>

definition drop_then_rise :: store where
  "drop_then_rise =
     [[(''date'', DatetimeCol [1, 2, 3]), (''close'', FloatCol [Fin 100, Fin 50, Fin 60])]]"

definition single_row :: store where
  "single_row = [[(''date'', DatetimeCol [1]), (''close'', FloatCol [Fin 100])]]"

text \<open>A price that doubles every day: every daily return is 1.\<close>

definition doubling_frame :: store where
  "doubling_frame =
     [[(''date'', DatetimeCol [1, 2, 3, 4]), (''close'', FloatCol [Fin 1, Fin 2, Fin 4, Fin 8])]]"

definition doubling_series :: "store \<times> (error + PriceSeries)" where
  "doubling_series = PriceSeries_init doubling_frame ''A'' 0 ''test'' ''stock''"

definition doubling_portfolio :: "printed list \<times> (error + Portfolio)" where
  "doubling_portfolio = Portfolio_init [(''A'', projr (snd doubling_series))] [(''A'', 1)] ''P''"

text \<open>A frame with the column names of the Yahoo Finance download.\<close>

definition capitalised_frame :: store where
  "capitalised_frame =
     [[(''Date'', DatetimeCol [1, 2]), (''Close'', FloatCol [Fin 100, Fin 101])]]"

text \<open>A series without an observation on day 2.\<close>

definition gap_frame :: store where
  "gap_frame = [[(''date'', DatetimeCol [1, 3]), (''close'', FloatCol [Fin 100, Fin 102])]]"

definition gap_series :: "store \<times> (error + PriceSeries)" where
  "gap_series = PriceSeries_init gap_frame ''A'' 0 ''test'' ''stock''"

text \<open>A frame whose dates are still text.\<close>

definition text_dates :: store where
  "text_dates = [[(''date'', ObjectCol [1, 2]), (''close'', FloatCol [Fin 100, Fin 102])]]"


text \<open>Two weights of \<^verbatim>\<open>2.0 ** 1023\<close>, which float64 holds exactly.\<close>

definition huge_weights :: "(string \<times> npfloat) list" where
  "huge_weights = [(''A'', Fin (2 ^ 1023)), (''B'', Fin (2 ^ 1023))]"

text \<open>A random source that is not random: every draw is 1/10.\<close>

definition tenth_normal :: "unit \<Rightarrow> npfloat \<Rightarrow> npfloat \<Rightarrow> nat \<Rightarrow> npfloat list \<times> unit" where
  "tenth_normal g loc scale n = (replicate n (Fin (1 / 10)), g)"

text \<open>The closes 100, 110, 99, 121 of the specification's example scenario.\<close>

definition scenario_frame :: dataframe where
  "scenario_frame =
     [(''date'', DatetimeCol [1, 2, 3, 4]),
      (''close'', FloatCol [Fin 100, Fin 110, Fin 99, Fin 121])]"

section \<open>Evaluation\<close>

lemmas frame_defs = required_def labels_def getitem_def setitem_def sort_values_def alloc_def
  rename_def column_mapping_def lower_def lower_char_def close_values_def

lemmas series_defs = range_index_def dropna_def ffill_def shift1_def pct_change_def
  np_sum_def notna_def mean_def std_def series_min_def cumprod_def expanding_max_def
  np_sub_def np_max_def np_min_def inf_of_sign_def

lemmas price_series_defs = PriceSeries_init_def validate_data_def standardize_columns_def
  calculate_basic_stats_def get_returns_frame_def calculate_max_drawdown_def get_returns_def

lemmas portfolio_defs = Portfolio_init_def check_symbols_def isclose_def assign_column_def
  dropna_rows_def get_portfolio_returns_def Portfolio_get_stats_def
  monte_carlo_simulation_def np_cumprod_def

lemmas cleaner_defs = getitem_bool_def iqr_mask_def zscore_mask_def remove_outliers_def
  date_range_def fill_missing_dates_def

lemmas spec_defs = returns_by_date_def spec_portfolio_returns_def List.map_filter_def

section \<open>Facts about frames and the constructor\<close>

lemma getitem_Inr_mem: "getitem df l = Inr c \<Longrightarrow> (l, c) \<in> set df"
proof -
  assume g: "getitem df l = Inr c"
  then obtain p where p: "filter (\<lambda>c. fst c = l) df = [p]" and c: "c = snd p"
    by (auto simp: getitem_def split: list.splits)
  from p have "p \<in> set (filter (\<lambda>c. fst c = l) df)" by simp
  then have "p \<in> set df" "fst p = l" by auto
  with c show ?thesis by (cases p) auto
qed

lemma filter_setitem:
  "filter (\<lambda>c. fst c = l) (setitem df l col) = map (\<lambda>_. (l, col)) (filter (\<lambda>c. fst c = l) df)"
  by (induction df) (auto simp: setitem_def)

lemma getitem_setitem:
  "getitem df l = Inr c \<Longrightarrow> getitem (setitem df l col) l = Inr col"
  by (auto simp: getitem_def filter_setitem split: list.splits)

lemma to_datetime_Inr: "to_datetime c = Inr c' \<Longrightarrow> \<exists>ds. c' = DatetimeCol ds"
  by (cases c) auto

lemma to_datetime_datetime:
  "is_datetime64_any_dtype c \<Longrightarrow> to_datetime c = Inr c"
  by (cases c) auto

lemma sort_values_Inr:
  "sort_values df l = Inr df' \<Longrightarrow>
     \<exists>ds. getitem df l = Inr (DatetimeCol ds)
       \<and> df' = map (\<lambda>c. (fst c, take_rows (sort_key (\<lambda>i. ds ! i) [0 ..< length ds]) (snd c))) df"
  by (auto simp: sort_values_def split: sum.splits column.splits)

lemma col_len_take_rows: "col_len (take_rows order c) = length order"
  by (cases c) auto

text \<open>
  What a successful \<^verbatim>\<open>_validate_data\<close> leaves: the caller's frame with its date column as
  timestamps, every other object as it was, and one new object, the sorted copy.
\<close>

lemma validate_data_Inr:
  assumes "validate_data st a = (st1, Inr b)" and "a < length st"
  shows "b = length st \<and> length st1 = Suc (length st)
    \<and> (\<forall>i < length st. i \<noteq> a \<longrightarrow> st1 ! i = st ! i)
    \<and> (\<exists>c ds. getitem (st ! a) ''date'' = Inr c \<and> to_datetime c = Inr (DatetimeCol ds)
          \<and> st1 ! a = (if is_datetime64_any_dtype c then st ! a
                       else setitem (st ! a) ''date'' (DatetimeCol ds))
          \<and> st1 ! b = map (\<lambda>cl. (fst cl,
                 take_rows (sort_key (\<lambda>i. ds ! i) [0 ..< length ds]) (snd cl))) (st1 ! a))"
proof -
  from assms(1) obtain c where c: "getitem (st ! a) ''date'' = Inr c"
    by (auto simp: validate_data_def split: if_splits sum.splits)
  show ?thesis
  proof (cases "is_datetime64_any_dtype c")
    case True
    then obtain ds where ds: "c = DatetimeCol ds" by (cases c) auto
    from assms c True obtain df' where s: "sort_values (st ! a) ''date'' = Inr df'"
      and r: "st1 = st @ [df']" "b = length st"
      by (auto simp: validate_data_def alloc_def split: if_splits sum.splits)
    from sort_values_Inr[OF s] c ds
    have "df' = map (\<lambda>cl. (fst cl,
                 take_rows (sort_key (\<lambda>i. ds ! i) [0 ..< length ds]) (snd cl))) (st ! a)"
      by auto
    with r c ds True assms(2) show ?thesis
      by (auto simp: nth_append)
  next
    case False
    from assms c False obtain c' where t: "to_datetime c = Inr c'"
      by (auto simp: validate_data_def split: if_splits sum.splits)
    then obtain ds where ds: "c' = DatetimeCol ds" using to_datetime_Inr by blast
    let ?st1 = "st[a := setitem (st ! a) ''date'' c']"
    from assms c False t obtain df' where s: "sort_values (?st1 ! a) ''date'' = Inr df'"
      and r: "st1 = ?st1 @ [df']" "b = length st"
      by (auto simp: validate_data_def alloc_def split: if_splits sum.splits)
    have g: "getitem (?st1 ! a) ''date'' = Inr c'"
      using assms(2) c by (simp add: getitem_setitem)
    from sort_values_Inr[OF s] g ds
    have "df' = map (\<lambda>cl. (fst cl,
                 take_rows (sort_key (\<lambda>i. ds ! i) [0 ..< length ds]) (snd cl))) (?st1 ! a)"
      by auto
    with r c ds t False assms(2) show ?thesis
      by (auto simp: nth_append)
  qed
qed

text \<open>A failed \<^verbatim>\<open>_validate_data\<close> has at most converted the caller's date column.\<close>

lemma validate_data_store:
  assumes "validate_data st a = (st1, r)" and "a < length st"
  shows "length st \<le> length st1 \<and> (\<forall>i < length st. i \<noteq> a \<longrightarrow> st1 ! i = st ! i)
    \<and> ((\<exists>ds. getitem (st ! a) ''date'' = Inr (DatetimeCol ds)) \<longrightarrow> st1 ! a = st ! a)"
  using assms
  by (auto simp: validate_data_def alloc_def nth_append
      split: if_splits sum.splits prod.splits)


text \<open>
  What a successful construction leaves: the store of \<open>validate_data_Inr\<close> with the labels
  of the sorted copy standardised, and the instance referring to that copy, whose close
  column is a non-empty float column.
\<close>

lemma PriceSeries_init_Inr:
  assumes "PriceSeries_init st sy a src ty = (st', Inr ps)" and "a < length st"
  shows "data ps = length st \<and> length st' = Suc (length st)
    \<and> symbol ps = sy \<and> source ps = src \<and> asset_type ps = ty
    \<and> (\<forall>i < length st. i \<noteq> a \<longrightarrow> st' ! i = st ! i)
    \<and> (\<exists>c ds xs. getitem (st ! a) ''date'' = Inr c \<and> to_datetime c = Inr (DatetimeCol ds)
          \<and> st' ! a = (if is_datetime64_any_dtype c then st ! a
                       else setitem (st ! a) ''date'' (DatetimeCol ds))
          \<and> (''date'', DatetimeCol ds) \<in> set (st' ! a)
          \<and> st' ! data ps =
               map (\<lambda>cl. (lower (case map_of column_mapping (fst cl) of
                                    Some l \<Rightarrow> l | None \<Rightarrow> fst cl),
                          take_rows (sort_key (\<lambda>i. ds ! i) [0 ..< length ds]) (snd cl)))
                   (st' ! a)
          \<and> close_values (st' ! data ps) = Inr xs \<and> xs \<noteq> []
          \<and> stats ps = projr (calculate_basic_stats (st' ! data ps)))"
proof -
  from assms(1) obtain st1 b where v: "validate_data st a = (st1, Inr b)"
    by (auto simp: PriceSeries_init_def split: prod.splits sum.splits)
  note V = validate_data_Inr[OF v assms(2)]
  from V have b: "b = length st" and len1: "length st1 = Suc (length st)" by auto
  from V obtain c ds where c: "getitem (st ! a) ''date'' = Inr c"
    and t: "to_datetime c = Inr (DatetimeCol ds)"
    and a1: "st1 ! a = (if is_datetime64_any_dtype c then st ! a
                        else setitem (st ! a) ''date'' (DatetimeCol ds))"
    and b1: "st1 ! b = map (\<lambda>cl. (fst cl,
                 take_rows (sort_key (\<lambda>i. ds ! i) [0 ..< length ds]) (snd cl))) (st1 ! a)"
    by auto
  let ?st2 = "standardize_columns st1 b"
  from assms(1) v obtain s where s: "calculate_basic_stats (?st2 ! b) = Inr s"
    and st': "st' = ?st2" and ps: "ps = \<lparr>symbol = sy, data = b, source = src, asset_type = ty, stats = s\<rparr>"
    by (auto simp: PriceSeries_init_def Let_def split: sum.splits)
  have blt: "b < length st1" using b len1 by simp
  have ab: "a \<noteq> b" using assms(2) b by simp
  have st2b: "?st2 ! b = map (\<lambda>cl. (lower (case map_of column_mapping (fst cl) of
                                    Some l \<Rightarrow> l | None \<Rightarrow> fst cl),
                          take_rows (sort_key (\<lambda>i. ds ! i) [0 ..< length ds]) (snd cl)))
                   (st1 ! a)"
    using blt by (simp add: standardize_columns_def rename_def b1 comp_def split: option.split)
  have st2o: "\<And>i. i \<noteq> b \<Longrightarrow> ?st2 ! i = st1 ! i"
    by (simp add: standardize_columns_def)
  have len2: "length ?st2 = length st1" by (simp add: standardize_columns_def)
  have mem: "(''date'', DatetimeCol ds) \<in> set (st1 ! a)"
  proof (cases "is_datetime64_any_dtype c")
    case True
    with t have "c = DatetimeCol ds" by (cases c) auto
    with c a1 True show ?thesis using getitem_Inr_mem by fastforce
  next
    case False
    with a1 getitem_setitem[OF c] show ?thesis using getitem_Inr_mem by fastforce
  qed
  from s obtain xs where xs: "close_values (?st2 ! b) = Inr xs" "xs \<noteq> []"
    by (auto simp: calculate_basic_stats_def split: sum.splits if_splits)
  have oth: "\<forall>i < length st. i \<noteq> a \<longrightarrow> ?st2 ! i = st ! i"
    using V st2o b by auto
  have "?st2 ! a = st1 ! a" using st2o ab by simp
  with st' ps c t a1 st2b len2 len1 mem xs s b oth show ?thesis
    by auto
qed

lemma ffill_from_Fin: "ffill_from p (map Fin cs) = map Fin cs"
  by (induction cs arbitrary: p) auto

lemma length_ffill_from: "length (ffill_from p xs) = length xs"
  by (induction xs arbitrary: p) auto

lemma length_pct_change: "length (pct_change xs) = length xs"
  by (simp add: pct_change_def ffill_def shift1_def Let_def length_ffill_from)

lemma np_div_NaN: "np_div x NaN = NaN"
  by (cases x) auto

text \<open>Row 0 has no return: its entry in \<^verbatim>\<open>pct_change()\<close> is NaN.\<close>

lemma pct_change_first: "xs \<noteq> [] \<Longrightarrow> pct_change xs ! 0 = NaN"
proof -
  assume "xs \<noteq> []"
  then obtain y ys where "ffill_from NaN xs = y # ys"
    by (cases "ffill_from NaN xs") (auto simp: length_ffill_from dest: arg_cong[where f = length])
  then show ?thesis
    by (simp add: pct_change_def ffill_def shift1_def np_div_NaN np_sub_def)
qed

lemma no_return_at_0:
  assumes "xs \<noteq> []"
  shows "0 \<notin> set (map fst (dropna (range_index (pct_change xs))))"
proof
  assume "0 \<in> set (map fst (dropna (range_index (pct_change xs))))"
  then obtain v where v: "(0, v) \<in> set (range_index (pct_change xs))" and n: "\<not> isna v"
    by (auto simp: dropna_def)
  from v have "v = pct_change xs ! 0"
    by (auto simp: range_index_def set_zip)
  with n pct_change_first[OF assms] show False by simp
qed

lemma pct_change_Fin:
  assumes "0 \<notin> set cs"
  shows "pct_change (map Fin cs)
    = map (\<lambda>i. if i = 0 then NaN else Fin (cs ! i / cs ! (i - 1) - 1)) [0 ..< length cs]"
proof (rule nth_equalityI)
  show "length (pct_change (map Fin cs)) = length (map (\<lambda>i. if i = 0 then NaN else Fin (cs ! i / cs ! (i - 1) - 1)) [0 ..< length cs])"
    by (simp add: length_pct_change)
next
  fix i assume "i < length (pct_change (map Fin cs))"
  then have i: "i < length cs" by (simp add: length_pct_change)
  have nz: "i \<noteq> 0 \<Longrightarrow> cs ! (i - 1) \<noteq> 0" using assms i by (metis less_imp_diff_less nth_mem)
  show "pct_change (map Fin cs) ! i = map (\<lambda>i. if i = 0 then NaN else Fin (cs ! i / cs ! (i - 1) - 1)) [0 ..< length cs] ! i"
    using i nz
    by (cases i) (auto simp: pct_change_def ffill_def ffill_from_Fin shift1_def Let_def np_sub_def)
qed

lemma returns_Fin:
  assumes "0 \<notin> set cs"
  shows "dropna (range_index (pct_change (map Fin cs)))
    = map (\<lambda>i. (i, Fin (cs ! i / cs ! (i - 1) - 1))) [1 ..< length cs]"
proof (cases cs)
  case Nil
  then show ?thesis
    by (simp add: pct_change_def ffill_def shift1_def dropna_def range_index_def)
next
  case (Cons c cs')
  let ?f = "\<lambda>i. if i = 0 then NaN else Fin (cs ! i / cs ! (i - 1) - 1)"
  have r: "range_index (map ?f [0 ..< length cs]) = map (\<lambda>i. (i, ?f i)) [0 ..< length cs]"
    by (rule nth_equalityI) (auto simp: range_index_def)
  have "0 < length cs" using Cons by simp
  then have u: "[0 ..< length cs] = 0 # [1 ..< length cs]"
    by (metis One_nat_def upt_conv_Cons)
  have "dropna (map (\<lambda>i. (i, ?f i)) [0 ..< length cs])
    = map (\<lambda>i. (i, ?f i)) (filter (\<lambda>i. \<not> isna (?f i)) [0 ..< length cs])"
    by (simp add: dropna_def filter_map comp_def)
  also have "filter (\<lambda>i. \<not> isna (?f i)) [0 ..< length cs] = [1 ..< length cs]"
    by (subst u) (auto intro: filter_True)
  also have "map (\<lambda>i. (i, ?f i)) [1 ..< length cs]
    = map (\<lambda>i. (i, Fin (cs ! i / cs ! (i - 1) - 1))) [1 ..< length cs]"
    by auto
  finally show ?thesis using assms by (simp add: pct_change_Fin r)
qed


text \<open>The frame of a constructed series has as many rows as closes, and at least one.\<close>

lemma constructed_rows:
  assumes "PriceSeries_init st sy a src ty = (st', Inr ps)" and "a < length st"
  shows "\<exists>xs. close_values (st' ! data ps) = Inr xs \<and> xs \<noteq> []
            \<and> nrows (st' ! data ps) = length xs"
proof -
  from PriceSeries_init_Inr[OF assms] obtain ds0 xs where
    mem: "(''date'', DatetimeCol ds0) \<in> set (st' ! a)"
    and fr: "st' ! data ps =
               map (\<lambda>cl. (lower (case map_of column_mapping (fst cl) of
                                    Some l \<Rightarrow> l | None \<Rightarrow> fst cl),
                          take_rows (sort_key (\<lambda>i. ds0 ! i) [0 ..< length ds0]) (snd cl)))
                   (st' ! a)"
    and xs: "close_values (st' ! data ps) = Inr xs" "xs \<noteq> []"
    by blast
  let ?order = "sort_key (\<lambda>i. ds0 ! i) [0 ..< length ds0]"
  from mem obtain c0 rest where "st' ! a = c0 # rest" by (cases "st' ! a") auto
  then have n: "nrows (st' ! data ps) = length ?order"
    unfolding fr by (simp add: col_len_take_rows)
  from xs have "(''close'', FloatCol xs) \<in> set (st' ! data ps)"
    by (auto simp: close_values_def split: sum.splits column.splits dest: getitem_Inr_mem)
  then obtain cl where "FloatCol xs = take_rows ?order cl"
    unfolding fr by auto
  then have "col_len (FloatCol xs) = length ?order"
    by (simp add: col_len_take_rows)
  with n xs show ?thesis by simp
qed

lemma getitem_bool_unaligned:
  "0 < nrows df \<Longrightarrow> 0 \<notin> set (map fst key) \<Longrightarrow> getitem_bool df key = Inl IndexingError"
  by (auto simp: getitem_bool_def list_all_iff)

text \<open>
  What any construction does to the store: it converts at most the date column of the
  frame it is given, leaves every other object as it was, and the instance it returns
  refers to a new object.
\<close>

lemma PriceSeries_init_store:
  assumes "PriceSeries_init st sy a src ty = (st', r)" and "a < length st"
  shows "length st \<le> length st' \<and> (\<forall>i < length st. i \<noteq> a \<longrightarrow> st' ! i = st ! i)
    \<and> ((\<exists>ds. getitem (st ! a) ''date'' = Inr (DatetimeCol ds)) \<longrightarrow> st' ! a = st ! a)
    \<and> (\<forall>ps. r = Inr ps \<longrightarrow> data ps = length st)"
proof -
  obtain st1 rv where v: "validate_data st a = (st1, rv)" by (cases "validate_data st a")
  note S = validate_data_store[OF v assms(2)]
  show ?thesis
  proof (cases rv)
    case (Inl e)
    with assms(1) v have "st' = st1" "r = Inl e"
      by (auto simp: PriceSeries_init_def)
    with S show ?thesis by auto
  next
    case (Inr b)
    with v validate_data_Inr[OF _ assms(2)] have b: "b = length st" by blast
    from assms(1) v Inr have st': "st' = standardize_columns st1 b"
      and r: "\<forall>ps. r = Inr ps \<longrightarrow> data ps = b"
      by (auto simp: PriceSeries_init_def Let_def split: sum.splits)
    have "\<And>i. i \<noteq> b \<Longrightarrow> st' ! i = st1 ! i" "length st' = length st1"
      unfolding st' by (simp_all add: standardize_columns_def)
    with S b r assms(2) show ?thesis by auto
  qed
qed

text \<open>A construction from a newly allocated frame leaves the objects before it alone.\<close>

lemma PriceSeries_init_fresh:
  assumes "PriceSeries_init (st @ [df]) sy (length st) src ty = (st', r)"
  shows "take (length st) st' = st \<and> (\<forall>ps. r = Inr ps \<longrightarrow> length st \<le> data ps)"
proof -
  have "length st < length (st @ [df])" by simp
  note S = PriceSeries_init_store[OF assms this]
  have "take (length st) st' = st"
  proof (rule nth_equalityI)
    show "length (take (length st) st') = length st" using S by simp
  next
    fix i assume "i < length (take (length st) st')"
    then have i: "i < length st" by simp
    with S have "st' ! i = (st @ [df]) ! i" by simp
    with i show "take (length st) st' ! i = st ! i" by (simp add: nth_append)
  qed
  with S show ?thesis by auto
qed





lemma foldl_np_add_Fin:
  "foldl np_add (Fin a) (map Fin xs) = Fin (a + sum_list xs)"
  by (induction xs arbitrary: a) (simp_all add: add.assoc)

lemma np_sum_Fin: "np_sum (map Fin xs) = Fin (sum_list xs)"
  by (simp add: np_sum_def foldl_np_add_Fin)


lemma total_weight_of_Fin:
  "map snd w = map Fin rw \<Longrightarrow> total_weight_of np_sum w = Fin (sum_list rw)"
  by (cases "w = []") (auto simp: total_weight_of_def np_sum_Fin)

text \<open>
  The constructor with exact arithmetic is \<open>Portfolio_post_init\<close> with the exact sum, the
  exact division and the exact test.
\<close>

lemma Portfolio_init_exact:
  "Portfolio_init h w nm =
     (case Portfolio_post_init np_sum np_div isclose_exact (map fst h)
             (map (\<lambda>kv. (fst kv, Fin (snd kv))) w) of
        (out, r) \<Rightarrow>
          (map (\<lambda>p. case p of Normalizando t \<Rightarrow> PesosNoSuman (real_of_float t)) out,
           map_sum id (\<lambda>ws. \<lparr>holdings = h,
                              weights = map (\<lambda>kv. (fst kv, real_of_float (snd kv))) ws,
                              name = nm\<rparr>) r))"
proof -
  let ?t = "sum_list (map snd w)"
  have t: "total_weight_of np_sum (map (\<lambda>kv. (fst kv, Fin (snd kv))) w) = Fin ?t"
    by (rule total_weight_of_Fin) (simp add: comp_def)
  show ?thesis
  proof (cases "isclose ?t 1")
    case True
    then show ?thesis
      unfolding Portfolio_init_def Portfolio_post_init_def check_symbols_def Let_def t
      by (simp add: comp_def)
  next
    case False
    show ?thesis
    proof (cases "w \<noteq> [] \<and> ?t = 0")
      case True
      with False show ?thesis
        unfolding Portfolio_init_def Portfolio_post_init_def check_symbols_def Let_def t
        by simp
    next
      case z: False
      show ?thesis
      proof (cases "w = []")
        case True
        with False show ?thesis
          unfolding Portfolio_init_def Portfolio_post_init_def check_symbols_def Let_def
          by (simp add: total_weight_of_def)
      next
        case n: False
        with z have "?t \<noteq> 0" by simp
        with False n show ?thesis
          unfolding Portfolio_init_def Portfolio_post_init_def check_symbols_def Let_def t
          by (simp add: comp_def)
      qed
    qed
  qed
qed


section \<open>What the code does on the claims' inputs\<close>

text \<open>
  Claim C1 (\<^verbatim>\<open>get_portfolio_returns\<close> joins the return streams on common dates and returns an
  empty stream for no holdings). The code joins on row positions: for two assets observed on
  days 1, 2, 3 and 2, 3, 4 it pairs the return of A on day 2 with the return of B on day 3
  (row 1 of each) and the return of A on day 3 with that of B on day 4, and returns two
  values, 11/20 and -3/20. The only day on which both assets have a return is day 3, where
  the weighted sum is 3/5. Without holdings the code returns the integer 0 that Python's
  \<^verbatim>\<open>sum\<close> starts from, not a stream.
\<close>

theorem C1_joined_on_row_positions:
  "map_sum id data (snd shifted_A) = Inr 2
   \<and> map_sum id data (snd shifted_B) = Inr 3
   \<and> shifted_portfolio =
       ([], Inr \<lparr>holdings = [(''A'', projr (snd shifted_A)), (''B'', projr (snd shifted_B))],
                  weights = [(''A'', 1 / 2), (''B'', 1 / 2)], name = ''P''\<rparr>)
   \<and> returns_by_date (fst shifted_B) (projr (snd shifted_A))
       = Inr [(2, Fin (1 / 10)), (3, Fin (1 / 5))]
   \<and> returns_by_date (fst shifted_B) (projr (snd shifted_B))
       = Inr [(3, Fin 1), (4, Fin (- (1 / 2)))]
   \<and> get_portfolio_returns (fst shifted_B) (projr (snd shifted_portfolio))
       = Inr (SeriesObj [(1, Fin (11 / 20)), (2, Fin (- (3 / 20)))])
   \<and> spec_portfolio_returns
         [(1 / 2, [(2, Fin (1 / 10)), (3, Fin (1 / 5))]),
          (1 / 2, [(3, Fin 1), (4, Fin (- (1 / 2)))])]
       = [(3, Fin (3 / 5))]
   \<and> get_portfolio_returns st empty_portfolio = Inr (IntObj 0)
   \<and> spec_portfolio_returns [] = []"
  by (simp add: shifted_portfolio_def shifted_B_def shifted_A_def shifted_frames_def
      empty_portfolio_def spec_defs portfolio_defs price_series_defs frame_defs series_defs
      Let_def)

text \<open>
  Claim C3 (\<^verbatim>\<open>max_drawdown\<close> is 0 only when the close prices never fall, and is never
  above 0). The running maximum starts at the second observation, the first row of
  \<^verbatim>\<open>pct_change\<close> being NaN: for the closes 100, 50, 60 the fall from 100 to 50 is not
  counted and \<^verbatim>\<open>max_drawdown\<close> is 0. For a single observation it is NaN.
\<close>

theorem C3_first_fall_not_counted:
  "map_sum id (\<lambda>ps. map_of (stats ps) ''max_drawdown'')
     (snd (PriceSeries_init drop_then_rise ''A'' 0 ''test'' ''stock'')) = Inr (Some (Fin 0))
   \<and> close_values (fst (PriceSeries_init drop_then_rise ''A'' 0 ''test'' ''stock'') ! 1)
       = Inr [Fin 100, Fin 50, Fin 60]
   \<and> map_sum id (\<lambda>ps. map_of (stats ps) ''max_drawdown'')
       (snd (PriceSeries_init single_row ''A'' 0 ''test'' ''stock'')) = Inr (Some NaN)"
  by (simp add: drop_then_rise_def single_row_def price_series_defs frame_defs series_defs
      Let_def)

text \<open>
  Claim C4 (\<^verbatim>\<open>Portfolio.get_stats\<close> yields a Sharpe ratio of 0 when the standard deviation
  of the returns is 0). \<^verbatim>\<open>PriceSeries\<close> guards the division, \<^verbatim>\<open>Portfolio.get_stats\<close> does
  not: for a price that doubles every day the standard deviation is 0, the Sharpe ratio of
  the series is 0 and that of the portfolio holding only this series is the infinity that
  the division of 1 by 0 yields.
\<close>

theorem C4_portfolio_sharpe_unguarded:
  "map_sum id (\<lambda>ps. (map_of (stats ps) ''std_return'', map_of (stats ps) ''sharpe_ratio''))
     (snd doubling_series) = Inr (Some (Fin 0), Some (Fin 0))
   \<and> snd doubling_portfolio
       = Inr \<lparr>holdings = [(''A'', projr (snd doubling_series))], weights = [(''A'', 1)],
               name = ''P''\<rparr>
   \<and> map_sum id (\<lambda>s. (map_of s ''std_return'', map_of s ''sharpe_ratio''))
       (Portfolio_get_stats (fst doubling_series) (projr (snd doubling_portfolio)))
       = Inr (Some (Fin 0), Some PInf)"
  by (simp add: doubling_portfolio_def doubling_series_def doubling_frame_def portfolio_defs
      price_series_defs frame_defs series_defs Let_def sqrt252_def)

text \<open>
  Claim C6 (the columns are accepted under their aliases, and construction fails only when
  date or close is absent under every alias). \<^verbatim>\<open>_validate_data\<close> looks for the labels
  \<^verbatim>\<open>date\<close> and \<^verbatim>\<open>close\<close> before \<^verbatim>\<open>_standardize_columns\<close> has renamed anything: a frame with
  the columns \<^verbatim>\<open>Date\<close> and \<^verbatim>\<open>Close\<close>, both in the alias table, is refused with ValueError.
  The alias table reaches only the optional columns.
\<close>

theorem C6_aliases_of_date_and_close_refused:
  "PriceSeries_init capitalised_frame ''A'' 0 ''test'' ''stock''
     = (capitalised_frame, Inl ValueError)
   \<and> map_of column_mapping ''Date'' = Some ''date''
   \<and> map_of column_mapping ''Close'' = Some ''close''
   \<and> map_sum id data (snd unordered_series) = Inr 1
   \<and> labels (fst unordered_series ! 1) = [''date'', ''close'', ''adj_close'']"
  by (simp add: capitalised_frame_def unordered_series_def unordered_frame_def
      price_series_defs frame_defs series_defs Let_def)

text \<open>
  Claim C7 (\<^verbatim>\<open>fill_missing_dates\<close> fails for every method other than \<^verbatim>\<open>ffill\<close> and
  \<^verbatim>\<open>interpolate\<close>). The method is tested by an \<^verbatim>\<open>if\<close>/\<^verbatim>\<open>elif\<close> without \<^verbatim>\<open>else\<close>: whatever
  its name, the call returns a series. For \<^verbatim>\<open>bfill\<close> the missing day is in the result
  with a close that is NaN.
\<close>

theorem C7_unknown_method_accepted:
  "(\<exists>ps. snd (fill_missing_dates (fst gap_series) (projr (snd gap_series)) method) = Inr ps)
   \<and> map_sum id data (snd gap_series) = Inr 1
   \<and> map_sum id data
         (snd (fill_missing_dates (fst gap_series) (projr (snd gap_series)) ''bfill''))
       = Inr 3
   \<and> fst (fill_missing_dates (fst gap_series) (projr (snd gap_series)) ''bfill'') ! 3
       = [(''date'', DatetimeCol [1, 2, 3]), (''close'', FloatCol [Fin 100, NaN, Fin 102])]"
  by (simp add: gap_series_def gap_frame_def cleaner_defs price_series_defs frame_defs
      series_defs Let_def upto.simps)

text \<open>
  Claim C9 (\<^verbatim>\<open>monte_carlo_simulation\<close> returns an array of shape (n, d) for every
  portfolio). The portfolio without holdings is constructed, with a warning; its return
  stream is the integer 0, whose \<^verbatim>\<open>mean\<close> does not exist: the simulation raises
  AttributeError, whatever the random source and the parameters.
\<close>

theorem C9_no_holdings_no_simulation:
  "Portfolio_init [] [] ''P'' = ([PesosNoSuman 0], Inr empty_portfolio)
   \<and> monte_carlo_simulation normal g st empty_portfolio n d v0 = Inl AttributeError"
  by (simp add: empty_portfolio_def portfolio_defs)

section \<open>Where a claim fails as it is stated\<close>

text \<open>
  Against claim C2: two observations of the same date are both kept. The series is
  constructed, and its dates are 1, 1: ascending, not strictly.
\<close>

theorem C2_duplicate_dates_kept:
  "map_sum id data (snd twin_series) = Inr 1
   \<and> getitem (fst twin_series ! 1) ''date'' = Inr (DatetimeCol [1, 1])
   \<and> \<not> sorted_wrt (<) [1, 1 :: int]"
  by (simp add: twin_series_def twin_dates_def price_series_defs frame_defs series_defs
      Let_def)


text \<open>
  Against claim C10: constructing a PriceSeries from a frame whose dates are text converts
  the date column of the caller's frame, at address 0, to timestamps.
\<close>

theorem C10_caller_frame_converted:
  "text_dates ! 0 = [(''date'', ObjectCol [1, 2]), (''close'', FloatCol [Fin 100, Fin 102])]
   \<and> fst (PriceSeries_init text_dates ''A'' 0 ''test'' ''stock'') ! 0
       = [(''date'', DatetimeCol [1, 2]), (''close'', FloatCol [Fin 100, Fin 102])]
   \<and> fst (PriceSeries_init text_dates ''A'' 0 ''test'' ''stock'') ! 0 \<noteq> text_dates ! 0"
  by (simp add: text_dates_def price_series_defs frame_defs series_defs Let_def)


section \<open>The claims that hold, as amended\<close>

text \<open>
  Claim C2, amended. For every constructed PriceSeries the frame kept holds the rows of the
  caller's frame, rearranged by one permutation into ascending order of date: strictly
  ascending exactly when the input dates are distinct, and with equal dates side by side
  otherwise (nothing removes a duplicate). Its close column has one value per date. When
  every close is a finite number other than 0, the return stream has the labels 1 to n-1,
  and the return at label i is close[i] / close[i-1] - 1.
\<close>

theorem C2_sorted_by_date_with_returns:
  assumes "PriceSeries_init st sy a src ty = (st', Inr ps)" and "a < length st"
  shows "\<exists>c ds0 ds xs order.
      getitem (st ! a) ''date'' = Inr c \<and> to_datetime c = Inr (DatetimeCol ds0)
    \<and> mset order = mset [0 ..< length ds0]
    \<and> map snd (st' ! data ps) = map (\<lambda>cl. take_rows order (snd cl)) (st' ! a)
    \<and> (''date'', DatetimeCol ds) \<in> set (st' ! data ps)
    \<and> sorted ds \<and> mset ds = mset ds0
    \<and> (sorted_wrt (<) ds \<longleftrightarrow> distinct ds0)
    \<and> close_values (st' ! data ps) = Inr xs \<and> length xs = length ds
    \<and> (\<forall>cs. xs = map Fin cs \<and> 0 \<notin> set cs \<longrightarrow>
          get_returns st' ps
            = Inr (map (\<lambda>i. (i, Fin (cs ! i / cs ! (i - 1) - 1))) [1 ..< length cs]))"
proof -
  from PriceSeries_init_Inr[OF assms] obtain c ds0 xs where
    c: "getitem (st ! a) ''date'' = Inr c" "to_datetime c = Inr (DatetimeCol ds0)"
    and mem: "(''date'', DatetimeCol ds0) \<in> set (st' ! a)"
    and fr: "st' ! data ps =
               map (\<lambda>cl. (lower (case map_of column_mapping (fst cl) of
                                    Some l \<Rightarrow> l | None \<Rightarrow> fst cl),
                          take_rows (sort_key (\<lambda>i. ds0 ! i) [0 ..< length ds0]) (snd cl)))
                   (st' ! a)"
    and xs: "close_values (st' ! data ps) = Inr xs"
    by blast
  let ?order = "sort_key (\<lambda>i. ds0 ! i) [0 ..< length ds0]"
  let ?ds = "map (\<lambda>i. ds0 ! i) ?order"
  let ?f = "\<lambda>cl. (lower (case map_of column_mapping (fst cl) of
                                    Some l \<Rightarrow> l | None \<Rightarrow> fst cl),
                          take_rows ?order (snd cl))"
  from imageI[OF mem, of ?f] have "?f (''date'', DatetimeCol ds0) \<in> set (st' ! data ps)"
    unfolding fr by simp
  then have m: "(''date'', DatetimeCol ?ds) \<in> set (st' ! data ps)"
    by (simp add: column_mapping_def lower_def lower_char_def)
  have s: "sorted ?ds" by (rule sorted_sort_key)
  have "mset ?ds = mset (map (\<lambda>i. ds0 ! i) [0 ..< length ds0])" by simp
  also have "\<dots> = mset ds0" by (simp only: map_nth)
  finally have p: "mset ?ds = mset ds0" .
  then have d: "sorted_wrt (<) ?ds \<longleftrightarrow> distinct ds0"
    using s by (metis mset_eq_imp_distinct_iff strict_sorted_iff)
  have o: "mset ?order = mset [0 ..< length ds0]" by simp
  have f: "map snd (st' ! data ps) = map (\<lambda>cl. take_rows ?order (snd cl)) (st' ! a)"
    unfolding fr by (simp add: comp_def)
  from xs have "(''close'', FloatCol xs) \<in> set (st' ! data ps)"
    by (auto simp: close_values_def split: sum.splits column.splits dest: getitem_Inr_mem)
  then obtain cl where "FloatCol xs = take_rows ?order cl"
    unfolding fr by auto
  then have "col_len (FloatCol xs) = length ?order"
    by (simp add: col_len_take_rows)
  then have l: "length xs = length ?ds" by simp
  have r: "\<forall>cs. xs = map Fin cs \<and> 0 \<notin> set cs \<longrightarrow>
          get_returns st' ps
            = Inr (map (\<lambda>i. (i, Fin (cs ! i / cs ! (i - 1) - 1))) [1 ..< length cs])"
    using xs by (auto simp: get_returns_def get_returns_frame_def returns_Fin)
  from c o f m s p d xs l r show ?thesis by blast
qed

lemma Inr_of_data: "map_sum id data r = Inr k \<Longrightarrow> r = Inr (projr r) \<and> data (projr r) = k"
  by (cases r) auto

lemma unordered_series_eval:
  "fst unordered_series =
     [[(''date'', DatetimeCol [3, 1, 2]),
       (''close'', FloatCol [Fin 121, Fin 100, Fin 110]),
       (''Adj Close'', FloatCol [Fin 120, Fin 99, Fin 109])],
      [(''date'', DatetimeCol [1, 2, 3]),
       (''close'', FloatCol [Fin 100, Fin 110, Fin 121]),
       (''adj_close'', FloatCol [Fin 99, Fin 109, Fin 120])]]
   \<and> map_sum id data (snd unordered_series) = Inr 1"
  by (simp add: unordered_series_def unordered_frame_def price_series_defs frame_defs
      series_defs Let_def)

text \<open>
  The amended claim C2 on three observations given out of order: the dates come out as
  1, 2, 3 and the two returns are 110/100 - 1 and 121/110 - 1.
\<close>

theorem C2_sorted_by_date_with_returns_witness:
  "unordered_series = (fst unordered_series, Inr (projr (snd unordered_series)))
   \<and> 0 < length unordered_frame
   \<and> (''date'', DatetimeCol [1, 2, 3])
       \<in> set (fst unordered_series ! data (projr (snd unordered_series)))
   \<and> close_values (fst unordered_series ! data (projr (snd unordered_series)))
       = Inr (map Fin [100, 110, 121])
   \<and> get_returns (fst unordered_series) (projr (snd unordered_series))
       = Inr [(1, Fin (1 / 10)), (2, Fin (1 / 10))]"
proof -
  note ev = unordered_series_eval
  from ev have i: "snd unordered_series = Inr (projr (snd unordered_series))"
    and k: "data (projr (snd unordered_series)) = 1"
    using Inr_of_data by blast+
  from i have e: "unordered_series = (fst unordered_series, Inr (projr (snd unordered_series)))"
    by (metis prod.collapse)
  have l: "0 < length unordered_frame" by (simp add: unordered_frame_def)
  have x: "close_values (fst unordered_series ! data (projr (snd unordered_series)))
       = Inr (map Fin [100, 110, 121])"
    using ev by (simp add: k frame_defs)
  have d: "(''date'', DatetimeCol [1, 2, 3])
      \<in> set (fst unordered_series ! data (projr (snd unordered_series)))"
    using ev by (simp add: k)
  from C2_sorted_by_date_with_returns[OF e[unfolded unordered_series_def] l]
  obtain xs where
    xs: "close_values (fst unordered_series ! data (projr (snd unordered_series))) = Inr xs"
    and r: "\<forall>cs. xs = map Fin cs \<and> 0 \<notin> set cs \<longrightarrow>
          get_returns (fst unordered_series) (projr (snd unordered_series))
            = Inr (map (\<lambda>i. (i, Fin (cs ! i / cs ! (i - 1) - 1))) [1 ..< length cs])"
    unfolding unordered_series_def by blast
  from xs x have "xs = map Fin [100, 110, 121]" by simp
  with r[THEN spec, of "[100, 110, 121]"]
  have g: "get_returns (fst unordered_series) (projr (snd unordered_series))
       = Inr [(1, Fin (1 / 10)), (2, Fin (1 / 10))]"
    by (simp add: upt_rec)
  from e l d x g show ?thesis by blast
qed


text \<open>
  Claim C5 (\<^verbatim>\<open>remove_outliers\<close> with method \<^verbatim>\<open>iqr\<close> returns a new PriceSeries of the
  retained rows, the first observation among them). For every constructed PriceSeries the
  call raises IndexingError, with \<^verbatim>\<open>iqr\<close> as with \<^verbatim>\<open>zscore\<close>: the mask has the labels of
  the return stream, which never has the label 0 of the first row, and \<^verbatim>\<open>series.data[mask]\<close>
  refuses a boolean Series that lacks a label of the frame. No series is returned.
\<close>

theorem C5_remove_outliers_always_raises:
  assumes "PriceSeries_init st sy a src ty = (st', Inr ps)" and "a < length st"
  shows "remove_outliers quantile st' ps ''iqr'' threshold = (st', Inl IndexingError)
       \<and> remove_outliers quantile st' ps ''zscore'' threshold = (st', Inl IndexingError)"
proof -
  from constructed_rows[OF assms] obtain xs where
    xs: "close_values (st' ! data ps) = Inr xs" "xs \<noteq> []"
    and n: "nrows (st' ! data ps) = length xs"
    by blast
  let ?rs = "dropna (range_index (pct_change xs))"
  from xs have g: "get_returns st' ps = Inr ?rs"
    by (simp add: get_returns_def get_returns_frame_def)
  have pos: "0 < nrows (st' ! data ps)" using n xs by simp
  have "map fst (iqr_mask quantile ?rs) = map fst ?rs"
    by (simp add: iqr_mask_def Let_def comp_def)
  with no_return_at_0[OF xs(2)] have "0 \<notin> set (map fst (iqr_mask quantile ?rs))" by simp
  from getitem_bool_unaligned[OF pos this] g
  have i: "remove_outliers quantile st' ps ''iqr'' threshold = (st', Inl IndexingError)"
    by (simp add: remove_outliers_def)
  have "map fst (zscore_mask threshold ?rs) = map fst ?rs"
    by (simp add: zscore_mask_def Let_def comp_def)
  with no_return_at_0[OF xs(2)] have "0 \<notin> set (map fst (zscore_mask threshold ?rs))" by simp
  from getitem_bool_unaligned[OF pos this] g
  have z: "remove_outliers quantile st' ps ''zscore'' threshold = (st', Inl IndexingError)"
    by (simp add: remove_outliers_def)
  from i z show ?thesis by simp
qed

text \<open>
  The three observations given out of order make a series; removing its outliers raises,
  whatever the quantiles and the threshold.
\<close>

theorem C5_remove_outliers_always_raises_witness:
  "unordered_series = (fst unordered_series, Inr (projr (snd unordered_series)))
   \<and> 0 < length unordered_frame
   \<and> (\<forall>quantile threshold.
        remove_outliers quantile (fst unordered_series) (projr (snd unordered_series))
          ''iqr'' threshold = (fst unordered_series, Inl IndexingError))"
proof -
  from unordered_series_eval
  have "snd unordered_series = Inr (projr (snd unordered_series))"
    using Inr_of_data by blast
  then have e: "unordered_series = (fst unordered_series, Inr (projr (snd unordered_series)))"
    by (metis prod.collapse)
  have l: "0 < length unordered_frame" by (simp add: unordered_frame_def)
  from C5_remove_outliers_always_raises[OF e[unfolded unordered_series_def] l] e l
  show ?thesis unfolding unordered_series_def by blast
qed



text \<open>
  Why the sum of rescaled weights is not stated of floats: the total of two weights of
  \<^verbatim>\<open>2.0 ** 1023\<close> overflows, it is not close to 1, and either weight divided by the
  infinity is 0. The portfolio is constructed with the weights 0 and 0.
\<close>

lemma overflowing_total_rescales_to_zero:
  "Portfolio_post_init (\<lambda>xs. float64_overflow (np_sum xs)) np_div isclose_exact
       [''A'', ''B''] huge_weights
     = ([Normalizando PInf], Inr [(''A'', Fin 0), (''B'', Fin 0)])
   \<and> total_weight_of (\<lambda>xs. float64_overflow (np_sum xs)) [(''A'', Fin 0), (''B'', Fin 0)] = Fin 0
   \<and> \<not> isclose_exact (Fin 0)"
  by (simp add: Portfolio_post_init_def total_weight_of_def huge_weights_def np_sum_def
      inf_of_sign_def isclose_def)

text \<open>
  Claim C10, amended. Constructing a PriceSeries leaves every frame of the store other than
  the caller's unchanged, and the caller's frame too when its date column already holds
  timestamps (a date column of another dtype is converted in the caller's frame).
  \<^verbatim>\<open>fill_missing_dates\<close> and \<^verbatim>\<open>remove_outliers\<close> leave every frame of the store unchanged,
  the frame of their input series among them, whether they return or raise. A series that
  one of the three returns refers to a frame that did not exist before the call.
\<close>

theorem C10_existing_frames_unchanged:
  "(PriceSeries_init st sy a src ty = (sta, ra) \<and> a < length st
    \<longrightarrow> (\<forall>i < length st. i \<noteq> a \<longrightarrow> sta ! i = st ! i)
      \<and> ((\<exists>ds. getitem (st ! a) ''date'' = Inr (DatetimeCol ds)) \<longrightarrow> take (length st) sta = st)
      \<and> (\<forall>ps'. ra = Inr ps' \<longrightarrow> length st \<le> data ps'))
   \<and> (fill_missing_dates st ps meth = (stb, rb)
    \<longrightarrow> take (length st) stb = st \<and> (\<forall>ps'. rb = Inr ps' \<longrightarrow> length st \<le> data ps'))
   \<and> (remove_outliers quantile st ps meth threshold = (stc, rc)
    \<longrightarrow> take (length st) stc = st \<and> (\<forall>ps'. rc = Inr ps' \<longrightarrow> length st \<le> data ps'))"
proof -
  have A: "PriceSeries_init st sy a src ty = (sta, ra) \<and> a < length st
    \<longrightarrow> (\<forall>i < length st. i \<noteq> a \<longrightarrow> sta ! i = st ! i)
      \<and> ((\<exists>ds. getitem (st ! a) ''date'' = Inr (DatetimeCol ds)) \<longrightarrow> take (length st) sta = st)
      \<and> (\<forall>ps'. ra = Inr ps' \<longrightarrow> length st \<le> data ps')"
  proof (rule impI)
    assume h: "PriceSeries_init st sy a src ty = (sta, ra) \<and> a < length st"
    then have S: "length st \<le> length sta"
      "\<forall>i < length st. i \<noteq> a \<longrightarrow> sta ! i = st ! i"
      "(\<exists>ds. getitem (st ! a) ''date'' = Inr (DatetimeCol ds)) \<longrightarrow> sta ! a = st ! a"
      "\<forall>ps. ra = Inr ps \<longrightarrow> data ps = length st"
      using PriceSeries_init_store[of st sy a src ty sta ra] by blast+
    have "(\<exists>ds. getitem (st ! a) ''date'' = Inr (DatetimeCol ds)) \<longrightarrow> take (length st) sta = st"
    proof
      assume "\<exists>ds. getitem (st ! a) ''date'' = Inr (DatetimeCol ds)"
      with S have e: "sta ! a = st ! a" by simp
      show "take (length st) sta = st"
      proof (rule nth_equalityI)
        show "length (take (length st) sta) = length st" using S by simp
      next
        fix i assume "i < length (take (length st) sta)"
        then have i: "i < length st" by simp
        with S e have "sta ! i = st ! i" by (cases "i = a") auto
        with i show "take (length st) sta ! i = st ! i" by simp
      qed
    qed
    with S show "(\<forall>i < length st. i \<noteq> a \<longrightarrow> sta ! i = st ! i)
      \<and> ((\<exists>ds. getitem (st ! a) ''date'' = Inr (DatetimeCol ds)) \<longrightarrow> take (length st) sta = st)
      \<and> (\<forall>ps'. ra = Inr ps' \<longrightarrow> length st \<le> data ps')"
      by auto
  qed
  have B: "fill_missing_dates st ps meth = (stb, rb)
    \<longrightarrow> take (length st) stb = st \<and> (\<forall>ps'. rb = Inr ps' \<longrightarrow> length st \<le> data ps')"
    using PriceSeries_init_fresh
    by (fastforce simp: fill_missing_dates_def alloc_def Let_def
        split: sum.splits column.splits if_splits)
  have C: "remove_outliers quantile st ps meth threshold = (stc, rc)
    \<longrightarrow> take (length st) stc = st \<and> (\<forall>ps'. rc = Inr ps' \<longrightarrow> length st \<le> data ps')"
    using PriceSeries_init_fresh
    by (fastforce simp: remove_outliers_def alloc_def Let_def
        split: sum.splits if_splits)
  from A B C show ?thesis by blast
qed


text \<open>
  The amended claim C10 on three calls: a construction from a frame with timestamps, and
  \<^verbatim>\<open>fill_missing_dates\<close> and \<^verbatim>\<open>remove_outliers\<close> on the series with a gap.
\<close>

theorem C10_existing_frames_unchanged_witness:
  "PriceSeries_init unordered_frame ''A'' 0 ''test'' ''stock''
     = (fst unordered_series, snd unordered_series)
   \<and> 0 < length unordered_frame
   \<and> getitem (unordered_frame ! 0) ''date'' = Inr (DatetimeCol [3, 1, 2])
   \<and> take (length unordered_frame) (fst unordered_series) = unordered_frame
   \<and> take (length (fst gap_series))
        (fst (fill_missing_dates (fst gap_series) (projr (snd gap_series)) ''ffill''))
       = fst gap_series
   \<and> take (length (fst gap_series))
        (fst (remove_outliers (\<lambda>q xs. Fin 0) (fst gap_series) (projr (snd gap_series))
               ''iqr'' 3))
       = fst gap_series"
proof -
  have e: "PriceSeries_init unordered_frame ''A'' 0 ''test'' ''stock''
     = (fst unordered_series, snd unordered_series)"
    by (simp add: unordered_series_def)
  have l: "0 < length unordered_frame" by (simp add: unordered_frame_def)
  have g: "getitem (unordered_frame ! 0) ''date'' = Inr (DatetimeCol [3, 1, 2])"
    by (simp add: unordered_frame_def getitem_def)
  from C10_existing_frames_unchanged[where st = unordered_frame and a = 0
      and sta = "fst unordered_series" and ra = "snd unordered_series"
      and sy = "''A''" and src = "''test''" and ty = "''stock''"]
    e l g
  have a: "take (length unordered_frame) (fst unordered_series) = unordered_frame"
    by blast
  let ?f = "fill_missing_dates (fst gap_series) (projr (snd gap_series)) ''ffill''"
  from C10_existing_frames_unchanged[where st = "fst gap_series"
      and ps = "projr (snd gap_series)" and meth = "''ffill''"
      and stb = "fst ?f" and rb = "snd ?f"]
  have b: "take (length (fst gap_series)) (fst ?f) = fst gap_series"
    by simp
  let ?r = "remove_outliers (\<lambda>q xs. Fin 0) (fst gap_series) (projr (snd gap_series))
               ''iqr'' 3"
  from C10_existing_frames_unchanged[where st = "fst gap_series"
      and ps = "projr (snd gap_series)" and meth = "''iqr''"
      and quantile = "\<lambda>q xs. Fin 0" and threshold = 3
      and stc = "fst ?r" and rc = "snd ?r"]
  have c: "take (length (fst gap_series)) (fst ?r) = fst gap_series"
    by simp
  from e l g a b c show ?thesis by blast
qed


section \<open>Further properties of the code\<close>

lemma length_np_cumprod_from: "length (np_cumprod_from acc xs) = length xs"
  by (induction xs arbitrary: acc) auto

lemma np_cumprod_from_nth:
  "j < length xs \<Longrightarrow>
     np_cumprod_from (Fin a) (map Fin xs) ! j = Fin (a * prod_list (take (Suc j) xs))"
proof (induction xs arbitrary: a j)
  case Nil
  then show ?case by simp
next
  case (Cons x xs)
  then show ?case by (cases j) (simp_all add: mult.assoc)
qed

lemma np_cumprod_from_Fin:
  "np_cumprod_from (Fin a) (map Fin xs)
     = map (\<lambda>j. Fin (a * prod_list (take (Suc j) xs))) [0 ..< length xs]"
  by (rule nth_equalityI) (simp_all add: length_np_cumprod_from np_cumprod_from_nth)

lemma simulate_draws:
  assumes "\<And>g. length (fst (normal g m sd d)) = d"
  shows "simulate normal g m sd d v0 n
    = Inr (map (\<lambda>r. map (np_mul (Fin v0)) (np_cumprod (map (np_add (Fin 1)) r)))
             (draws normal g m sd d n))"
proof (induction n arbitrary: g)
  case 0
  then show ?case by simp
next
  case (Suc n)
  obtain r g' where r: "normal g m sd d = (r, g')" by (cases "normal g m sd d")
  with assms[of g] have "length r = d" by simp
  with r Suc.IH[of g'] show ?case
    by (simp add: np_cumprod_def length_np_cumprod_from)
qed

lemma length_draws: "length (draws normal g m sd d n) = n"
  by (induction n arbitrary: g) (auto split: prod.splits)

lemma draws_length:
  assumes "\<And>g. length (fst (normal g m sd d)) = d"
  shows "r \<in> set (draws normal g m sd d n) \<Longrightarrow> length r = d"
proof (induction n arbitrary: g)
  case 0
  then show ?case by simp
next
  case (Suc n)
  obtain r' g' where n: "normal g m sd d = (r', g')" by (cases "normal g m sd d")
  with assms[of g] have "length r' = d" by simp
  with Suc n show ?case by auto
qed

text \<open>
  The simulation of a portfolio that has a return stream. When every call of the random
  source returns as many draws as it is asked for, \<^verbatim>\<open>monte_carlo_simulation\<close> returns
  \<open>n\<close> rows of \<open>d\<close> values, row \<open>i\<close> computed from the draws of the \<open>i\<close>-th call, made with
  the mean and the standard deviation of the portfolio's return stream; where these draws
  are finite numbers \<open>r\<close>, the value in column \<open>j\<close> is \<open>v\<close> times the product of \<open>1 + r\<close>
  over the draws up to \<open>j\<close>.
\<close>

theorem monte_carlo_rows_compound_draws:
  assumes "get_portfolio_returns st p = Inr (SeriesObj s)"
    and "\<forall>g. length (fst (normal g (mean (map snd s)) (std (map snd s)) d)) = d"
  shows "\<exists>rows. monte_carlo_simulation normal g st p n d v = Inr rows
    \<and> length rows = n
    \<and> (\<forall>i < n. length (rows ! i) = d
         \<and> (\<forall>rs. draws normal g (mean (map snd s)) (std (map snd s)) d n ! i = map Fin rs
               \<longrightarrow> (\<forall>j < d. rows ! i ! j
                      = Fin (v * prod_list (map (\<lambda>r. 1 + r) (take (Suc j) rs))))))"
proof -
  let ?m = "mean (map snd s)" and ?sd = "std (map snd s)"
  let ?path = "\<lambda>r. map (np_mul (Fin v)) (np_cumprod (map (np_add (Fin 1)) r))"
  let ?D = "draws normal g ?m ?sd d n"
  from assms(2) have L: "\<And>g. length (fst (normal g ?m ?sd d)) = d" by simp
  have R: "monte_carlo_simulation normal g st p n d v = Inr (map ?path ?D)"
    using assms(1) simulate_draws[of normal ?m ?sd d, OF L]
    by (simp add: monte_carlo_simulation_def)
  have n: "length (map ?path ?D) = n" by (simp add: length_draws)
  have "\<forall>i < n. length (map ?path ?D ! i) = d
         \<and> (\<forall>rs. ?D ! i = map Fin rs
               \<longrightarrow> (\<forall>j < d. map ?path ?D ! i ! j
                      = Fin (v * prod_list (map (\<lambda>r. 1 + r) (take (Suc j) rs)))))"
  proof (intro allI impI)
    fix i assume i: "i < n"
    then have mem: "?D ! i \<in> set ?D" by (simp add: length_draws)
    have len: "length (?D ! i) = d"
      by (rule draws_length[of normal ?m ?sd d, OF L mem])
    have row: "map ?path ?D ! i = ?path (?D ! i)" using i by (simp add: length_draws)
    have "\<forall>rs. ?D ! i = map Fin rs
               \<longrightarrow> (\<forall>j < d. ?path (?D ! i) ! j
                      = Fin (v * prod_list (map (\<lambda>r. 1 + r) (take (Suc j) rs))))"
    proof (intro allI impI)
      fix rs j assume rs: "?D ! i = map Fin rs" and j: "j < d"
      from rs len have lr: "length rs = d" by (metis length_map)
      have "map (np_add (Fin 1)) (map Fin rs) = map Fin (map (\<lambda>r. 1 + r) rs)" by simp
      then have "np_cumprod (map (np_add (Fin 1)) (map Fin rs))
        = map (\<lambda>j. Fin (1 * prod_list (take (Suc j) (map (\<lambda>r. 1 + r) rs)))) [0 ..< length rs]"
        unfolding np_cumprod_def by (simp only: np_cumprod_from_Fin length_map)
      with j lr rs show "?path (?D ! i) ! j
                      = Fin (v * prod_list (map (\<lambda>r. 1 + r) (take (Suc j) rs)))"
        by (simp add: take_map)
    qed
    with len row show "length (map ?path ?D ! i) = d
         \<and> (\<forall>rs. ?D ! i = map Fin rs
               \<longrightarrow> (\<forall>j < d. map ?path ?D ! i ! j
                      = Fin (v * prod_list (map (\<lambda>r. 1 + r) (take (Suc j) rs)))))"
      by (simp add: np_cumprod_def length_np_cumprod_from)
  qed
  with R n show ?thesis by blast
qed


text \<open>
  The simulation on the portfolio of the doubling price, with the source whose every draw
  is 1/10: two days of compounding from 100 end at 121.
\<close>

theorem monte_carlo_rows_compound_draws_witness:
  "get_portfolio_returns (fst doubling_series) (projr (snd doubling_portfolio))
     = Inr (SeriesObj [(1, Fin 1), (2, Fin 1), (3, Fin 1)])
   \<and> (\<forall>g. length (fst (tenth_normal g (mean (map snd [(1 :: nat, Fin 1), (2, Fin 1), (3, Fin 1)]))
                         (std (map snd [(1 :: nat, Fin 1), (2, Fin 1), (3, Fin 1)])) 2)) = 2)
   \<and> (\<exists>rows. monte_carlo_simulation tenth_normal () (fst doubling_series)
                (projr (snd doubling_portfolio)) 2 2 100 = Inr rows
         \<and> length rows = 2 \<and> length (rows ! 1) = 2 \<and> rows ! 1 ! 1 = Fin 121)"
proof -
  let ?s = "[(1 :: nat, Fin 1), (2, Fin 1), (3, Fin 1)]"
  have h1: "get_portfolio_returns (fst doubling_series) (projr (snd doubling_portfolio))
     = Inr (SeriesObj ?s)"
    by (simp add: doubling_portfolio_def doubling_series_def doubling_frame_def
        portfolio_defs price_series_defs frame_defs series_defs Let_def)
  have h2: "\<forall>g. length (fst (tenth_normal g (mean (map snd ?s)) (std (map snd ?s)) 2)) = 2"
    by (simp add: tenth_normal_def)
  from monte_carlo_rows_compound_draws[where normal = tenth_normal and d = 2 and n = 2
      and v = 100 and g = "()" and s = ?s and st = "fst doubling_series"
      and p = "projr (snd doubling_portfolio)"] h1 h2
  obtain rows where R: "monte_carlo_simulation tenth_normal () (fst doubling_series)
                (projr (snd doubling_portfolio)) 2 2 100 = Inr rows"
    and n: "length rows = 2"
    and A: "\<forall>i < 2. length (rows ! i) = 2
         \<and> (\<forall>rs. draws tenth_normal () (mean (map snd ?s)) (std (map snd ?s)) 2 2 ! i
                    = map Fin rs
               \<longrightarrow> (\<forall>j < 2. rows ! i ! j
                      = Fin (100 * prod_list (map (\<lambda>r. 1 + r) (take (Suc j) rs)))))"
    by blast
  have d: "draws tenth_normal () (mean (map snd ?s)) (std (map snd ?s)) 2 2 ! 1
      = map Fin [1 / 10, 1 / 10]"
    by (simp add: tenth_normal_def eval_nat_numeral)
  from A have l: "length (rows ! 1) = 2" by simp
  from A d have "\<forall>j < 2. rows ! 1 ! j
      = Fin (100 * prod_list (map (\<lambda>r. 1 + r) (take (Suc j) [1 / 10, 1 / 10])))"
    by (metis one_less_numeral_iff semiring_norm(76))
  then have "rows ! 1 ! 1 = Fin (100 * prod_list (map (\<lambda>r. 1 + r) (take (Suc 1) [1 / 10, 1 / 10])))"
    by simp
  then have v: "rows ! 1 ! 1 = Fin 121" by simp
  from h1 h2 R n l v show ?thesis by blast
qed

end
